theory Spec2Isabelle
  imports Complex_Main "HOL-Library.AList"
begin

section \<open>Numbers, errors and the library interface\<close>

text \<open>
  The program computes on numpy float64 arrays. Finite float64 values are modelled as
  \<open>real\<close> (no rounding, no overflow, no signed zero); the values that only a division
  can produce are kept apart in \<open>np_float\<close>, so that a division by zero is visible in the
  model as the \<open>NaN\<close> or the infinity numpy returns (with a RuntimeWarning, never an
  exception).
\<close>

datatype np_float = Finite real | PosInf | NegInf | NaN

text \<open>Exceptions of the program. \<open>NegativeMean key m\<close> stands for the message
  \<^verbatim>\<open>f"Parameter {key} has negative mean: {param.mean}"\<close>, \<open>NegativeStdDev key s\<close> for
  \<^verbatim>\<open>f"Parameter {key} has negative std_dev: {param.std_dev}"\<close>; \<open>FromNumpy\<close> is a
  ValueError raised inside numpy.\<close>

datatype message = NegativeMean string real | NegativeStdDev string real | FromNumpy

datatype error = ValueError message | KeyError string

text \<open>
  What the program takes from numpy, pandas and scipy without defining it: the state of
  numpy's global generator after \<^verbatim>\<open>np.random.seed(s)\<close>, one draw of \<^verbatim>\<open>np.random.normal\<close>
  from a generator state (the value and the next state), the quantile function of
  Student's t distribution (probability, degrees of freedom), and the float64 number that
  \<^verbatim>\<open>np.var\<close> computes for an array of two or more values: \<open>ndarray_var\<close> for an ndarray,
  \<open>series_var\<close> for a pandas Series, on which \<^verbatim>\<open>np.var\<close> calls \<^verbatim>\<open>Series.var(ddof=0)\<close>. The
  variance is taken from the library because the sensitivity analysis divides by it: the
  rounded float64 result need not be zero where the exact variance is (a constant array
  of several values can have a tiny positive computed variance), and it is the computed
  number that decides between a quotient and a division by zero.
\<close>

record 'g numerics =
  rng_seed :: "int \<Rightarrow> 'g"
  rng_normal :: "'g \<Rightarrow> real \<Rightarrow> real \<Rightarrow> real \<times> 'g"
  t_ppf :: "real \<Rightarrow> real \<Rightarrow> real"
  ndarray_var :: "real list \<Rightarrow> real"
  series_var :: "real list \<Rightarrow> real"

text \<open>\<^verbatim>\<open>np.random.seed(seed)\<close> replaces the global state; a seed outside \<open>0 .. 2^32 - 1\<close>
  raises ValueError.\<close>

definition np_random_seed :: "'g numerics \<Rightarrow> int \<Rightarrow> error + 'g" where
  "np_random_seed L s =
     (if 0 \<le> s \<and> s < 2 ^ 32 then Inr (rng_seed L s) else Inl (ValueError FromNumpy))"

fun normal_draws :: "'g numerics \<Rightarrow> real \<Rightarrow> real \<Rightarrow> nat \<Rightarrow> 'g \<Rightarrow> real list \<times> 'g" where
  "normal_draws L loc scale 0 g = ([], g)"
| "normal_draws L loc scale (Suc n) g =
     (case rng_normal L g loc scale of
        (x, g1) \<Rightarrow> (case normal_draws L loc scale n g1 of (xs, g2) \<Rightarrow> (x # xs, g2)))"

text \<open>\<^verbatim>\<open>np.random.normal(loc, scale, size)\<close>: ValueError for a negative scale or a
  negative size, otherwise \<open>size\<close> successive draws from the global generator.\<close>

definition np_random_normal ::
  "'g numerics \<Rightarrow> real \<Rightarrow> real \<Rightarrow> int \<Rightarrow> 'g \<Rightarrow> error + (real list \<times> 'g)" where
  "np_random_normal L loc scale sz g =
     (if scale < 0 \<or> sz < 0 then Inl (ValueError FromNumpy)
      else Inr (normal_draws L loc scale (nat sz) g))"

text \<open>\<^verbatim>\<open>np.maximum(samples, 0)\<close>, element-wise.\<close>

definition np_maximum :: "real list \<Rightarrow> real \<Rightarrow> real list" where
  "np_maximum xs c = map (\<lambda>x. max x c) xs"


section \<open>parameters.py\<close>

record PolicyParameter =
  name :: string
  mean :: real
  std_dev :: real
  description :: string
  source :: string

text \<open>\<^verbatim>\<open>PolicyParameter.sample(size, seed)\<close>. The global generator state is passed in and
  returned.\<close>

definition sample ::
  "'g numerics \<Rightarrow> PolicyParameter \<Rightarrow> int \<Rightarrow> int option \<Rightarrow> 'g \<Rightarrow> error + (real list \<times> 'g)" where
  "sample L self sz seed g =
     (case (case seed of None \<Rightarrow> Inr g | Some s \<Rightarrow> np_random_seed L s) of
        Inl e \<Rightarrow> Inl e
      | Inr g0 \<Rightarrow>
          (case np_random_normal L (mean self) (std_dev self) sz g0 of
             Inl e \<Rightarrow> Inl e
           | Inr (samples, g1) \<Rightarrow> Inr (np_maximum samples 0, g1)))"

text \<open>The module-level tables. A dict is an association list in insertion order; the
  functions below take the tables as arguments, since the program reads them as mutable
  module state.\<close>

type_synonym parameters = "(string \<times> PolicyParameter) list"

definition POLICY_PARAMETERS :: parameters where
  "POLICY_PARAMETERS =
     [(''free_buses'',
       \<lparr>name = ''Free Public Transportation'', mean = 7 / 10, std_dev = 1 / 10,
        description = ''Free bus service for all NYC residents'',
        source = ''Public estimates''\<rparr>),
      (''universal_childcare'',
       \<lparr>name = ''Universal Free Childcare'', mean = 6, std_dev = 1,
        description = ''Free childcare with increased wages for workers'',
        source = ''High-end estimates with wage increases''\<rparr>),
      (''affordable_housing'',
       \<lparr>name = ''Affordable Housing Program'', mean = 10, std_dev = 3 / 2,
        description = ''$100B over 10 years, union labor, 200K units'',
        source = ''Mamdani campaign proposal''\<rparr>),
      (''government_grocery_stores'',
       \<lparr>name = ''Government-Subsidized Grocery Stores'', mean = 75 / 1000, std_dev = 25 / 1000,
        description = ''5 government-run grocery stores (1 per borough)'',
        source = ''Estimated from similar programs''\<rparr>)]"

definition REVENUE_PARAMETERS :: parameters where
  "REVENUE_PARAMETERS =
     [(''tax_increases'',
       \<lparr>name = ''Tax Revenue Increases'', mean = 10, std_dev = 3 / 2,
        description = ''2% tax on >$1M income + corporate tax increase to 11.5%'',
        source = ''Mamdani campaign proposal''\<rparr>)]"






section \<open>config.py\<close>

definition CONFIDENCE_LEVEL :: real where
  "CONFIDENCE_LEVEL = 95 / 100"

definition PERCENTILES :: "nat list" where
  "PERCENTILES = [5, 25, 50, 75, 95]"


section \<open>The numpy, pandas and scipy operations the simulator calls\<close>

text \<open>Reductions of a non-empty array. On an empty array \<^verbatim>\<open>np.mean\<close>, \<^verbatim>\<open>np.median\<close> and
  \<^verbatim>\<open>np.std\<close> return nan with a RuntimeWarning and \<^verbatim>\<open>np.min\<close>, \<^verbatim>\<open>np.max\<close> raise ValueError;
  the callers below make that case explicit and use these functions on non-empty arrays
  only.\<close>

definition np_mean :: "real list \<Rightarrow> real" where
  "np_mean xs = sum_list xs / real (length xs)"

text \<open>\<^verbatim>\<open>np.var\<close> and \<^verbatim>\<open>np.std\<close> with \<open>ddof\<close> delta degrees of freedom (0 by default): the
  sum of squared deviations from the mean over \<open>n - ddof\<close>.\<close>

definition sum_sq_dev :: "real list \<Rightarrow> real" where
  "sum_sq_dev xs = sum_list (map (\<lambda>x. (x - np_mean xs) ^ 2) xs)"

definition np_var :: "real list \<Rightarrow> real" where
  "np_var xs = sum_sq_dev xs / real (length xs)"

definition np_std :: "real list \<Rightarrow> real" where
  "np_std xs = sqrt (np_var xs)"

definition np_median :: "real list \<Rightarrow> real" where
  "np_median xs =
     (let s = sort xs; n = length s
      in if n mod 2 = 1 then s ! (n div 2) else (s ! (n div 2 - 1) + s ! (n div 2)) / 2)"

fun np_min :: "real list \<Rightarrow> error + real" where
  "np_min [] = Inl (ValueError FromNumpy)"
| "np_min (x # xs) = Inr (foldl min x xs)"

fun np_max :: "real list \<Rightarrow> error + real" where
  "np_max [] = Inl (ValueError FromNumpy)"
| "np_max (x # xs) = Inr (foldl max x xs)"

text \<open>\<^verbatim>\<open>np.percentile(a, p)\<close> with the default linear interpolation, for \<open>0 \<le> p \<le> 100\<close>:
  the virtual index \<open>(n - 1) * p / 100\<close> into the sorted array, interpolated between its
  two neighbours.\<close>

definition np_percentile :: "real list \<Rightarrow> real \<Rightarrow> real" where
  "np_percentile xs p =
     (let s = sort xs; n = length s;
          v = (real n - 1) * (p / 100);
          lo = nat \<lfloor>v\<rfloor>;
          hi = min (lo + 1) (n - 1)
      in s ! lo + (v - real lo) * (s ! hi - s ! lo))"

text \<open>float64 division and multiplication where an operand may be zero, infinite or nan.\<close>

fun np_true_divide :: "np_float \<Rightarrow> np_float \<Rightarrow> np_float" where
  "np_true_divide (Finite a) (Finite b) =
     (if b \<noteq> 0 then Finite (a / b)
      else if a = 0 then NaN else if a > 0 then PosInf else NegInf)"
| "np_true_divide (Finite a) PosInf = Finite 0"
| "np_true_divide (Finite a) NegInf = Finite 0"
| "np_true_divide PosInf (Finite b) = (if b \<ge> 0 then PosInf else NegInf)"
| "np_true_divide NegInf (Finite b) = (if b \<ge> 0 then NegInf else PosInf)"
| "np_true_divide _ _ = NaN"

fun np_multiply :: "np_float \<Rightarrow> np_float \<Rightarrow> np_float" where
  "np_multiply (Finite a) (Finite b) = Finite (a * b)"
| "np_multiply (Finite a) PosInf = (if a = 0 then NaN else if a > 0 then PosInf else NegInf)"
| "np_multiply (Finite a) NegInf = (if a = 0 then NaN else if a > 0 then NegInf else PosInf)"
| "np_multiply PosInf (Finite b) = (if b = 0 then NaN else if b > 0 then PosInf else NegInf)"
| "np_multiply NegInf (Finite b) = (if b = 0 then NaN else if b > 0 then NegInf else PosInf)"
| "np_multiply PosInf PosInf = PosInf"
| "np_multiply NegInf NegInf = PosInf"
| "np_multiply PosInf NegInf = NegInf"
| "np_multiply NegInf PosInf = NegInf"
| "np_multiply _ _ = NaN"

text \<open>The comparison \<^verbatim>\<open><\<close> of two floats: False whenever an operand is nan.\<close>

fun float_lt :: "np_float \<Rightarrow> np_float \<Rightarrow> bool" where
  "float_lt (Finite a) (Finite b) = (a < b)"
| "float_lt NaN _ = False"
| "float_lt _ NaN = False"
| "float_lt PosInf _ = False"
| "float_lt _ PosInf = True"
| "float_lt NegInf NegInf = False"
| "float_lt NegInf _ = True"
| "float_lt _ NegInf = False"

text \<open>Reductions that return nan instead of raising: \<^verbatim>\<open>np.mean\<close> of any array (nan on
  the empty one), the pandas \<^verbatim>\<open>Series.mean\<close>, \<^verbatim>\<open>Series.median\<close> and \<^verbatim>\<open>Series.std\<close> (the
  sample standard deviation, \<open>ddof = 1\<close>, nan for fewer than two values), and
  \<^verbatim>\<open>scipy.stats.sem\<close>, the sample standard deviation over \<open>sqrt n\<close>.\<close>

definition mean_or_nan :: "real list \<Rightarrow> np_float" where
  "mean_or_nan xs = (if xs = [] then NaN else Finite (np_mean xs))"

text \<open>\<^verbatim>\<open>np.var(a)\<close> as a float64, \<open>rounded\<close> being the library's result on two or more
  values. It is nan on the empty array. On a single value \<open>x\<close> it is exactly 0 in float64
  arithmetic too: the mean is \<open>x / 1 = x\<close>, the deviation \<open>x - x = 0\<close>, its square 0 and the
  mean of the squares \<open>0 / 1 = 0\<close>.\<close>

definition var_or_nan :: "(real list \<Rightarrow> real) \<Rightarrow> real list \<Rightarrow> np_float" where
  "var_or_nan rounded xs =
     (if xs = [] then NaN else if length xs = 1 then Finite 0 else Finite (rounded xs))"

definition median_or_nan :: "real list \<Rightarrow> np_float" where
  "median_or_nan xs = (if xs = [] then NaN else Finite (np_median xs))"

definition sample_std :: "real list \<Rightarrow> np_float" where
  "sample_std xs =
     (if length xs \<le> 1 then NaN else Finite (sqrt (sum_sq_dev xs / (real (length xs) - 1))))"

definition scipy_sem :: "real list \<Rightarrow> np_float" where
  "scipy_sem xs = np_true_divide (sample_std xs) (Finite (sqrt (real (length xs))))"

text \<open>\<^verbatim>\<open>scipy.stats.t.interval(confidence, df, loc, scale)\<close>: the two quantiles
  \<open>loc + scale * t_ppf q df\<close> at \<open>q = (1 - confidence) / 2\<close> and \<open>(1 + confidence) / 2\<close>; nan
  for both where the arguments are outside the distribution's domain (\<open>df \<le> 0\<close>,
  \<open>scale \<le> 0\<close>, or a nan).\<close>

definition t_interval ::
  "'g numerics \<Rightarrow> real \<Rightarrow> int \<Rightarrow> np_float \<Rightarrow> np_float \<Rightarrow> np_float \<times> np_float" where
  "t_interval L confidence df loc scale =
     (case (loc, scale) of
        (Finite m, Finite s) \<Rightarrow>
          (if df > 0 \<and> s > 0
           then (Finite (m + s * t_ppf L ((1 - confidence) / 2) (real_of_int df)),
                 Finite (m + s * t_ppf L ((1 + confidence) / 2) (real_of_int df)))
           else (NaN, NaN))
      | _ \<Rightarrow> (NaN, NaN))"

text \<open>A DataFrame built from a dict of columns: the columns in insertion order. The
  constructor raises ValueError unless all columns have the same length.\<close>

type_synonym DataFrame = "(string \<times> real list) list"

definition nrows :: "DataFrame \<Rightarrow> nat" where
  "nrows df = (case df of [] \<Rightarrow> 0 | (k, col) # _ \<Rightarrow> length col)"

definition pd_DataFrame :: "(string \<times> real list) list \<Rightarrow> error + DataFrame" where
  "pd_DataFrame d =
     (if list_all (\<lambda>(k, col). length col = nrows d) d then Inr d
      else Inl (ValueError FromNumpy))"

text \<open>\<^verbatim>\<open>df.sum(axis=1).values\<close>: one value per row, accumulated over the columns from 0.\<close>

definition df_sum_axis1 :: "DataFrame \<Rightarrow> real list" where
  "df_sum_axis1 df = foldl (\<lambda>acc (k, col). map2 (+) acc col) (replicate (nrows df) 0) df"

text \<open>\<^verbatim>\<open>a - b\<close> on one-dimensional arrays, with numpy's broadcasting: equal lengths, or one
  operand of length 1 stretched to the other; ValueError otherwise.\<close>

definition np_subtract :: "real list \<Rightarrow> real list \<Rightarrow> error + real list" where
  "np_subtract a b =
     (if length a = length b then Inr (map2 (-) a b)
      else if length a = 1 then Inr (map (\<lambda>y. hd a - y) b)
      else if length b = 1 then Inr (map (\<lambda>x. x - hd b) a)
      else Inl (ValueError FromNumpy))"


section \<open>simulation.py\<close>

text \<open>The nested statistics dict, one record per level.\<close>

record summary =
  stat_mean :: real
  stat_median :: real
  stat_std :: real
  stat_min :: real
  stat_max :: real

record threshold_analysis =
  exceedances :: int
  probability :: np_float
  percentage :: np_float

record interval =
  lower :: np_float
  upper :: np_float

record confidence_intervals =
  ci_total_costs :: interval
  ci_revenues :: interval
  ci_net_budget_impact :: interval

record policy_statistic =
  policy_mean :: np_float
  policy_std :: np_float
  policy_median :: np_float

record statistics_dict =
  stats_num_simulations :: int
  stats_budget_threshold :: real
  stats_total_costs :: summary
  stats_total_costs_percentiles :: "(nat \<times> real) list"
  stats_revenues :: summary
  stats_net_budget_impact :: summary
  stats_net_budget_impact_percentiles :: "(nat \<times> real) list"
  stats_threshold_analysis :: threshold_analysis
  stats_confidence_intervals :: confidence_intervals
  stats_policy_statistics :: "(string \<times> policy_statistic) list"

record SimulationResults =
  policy_costs :: DataFrame
  total_costs :: "real list"
  revenues :: "real list"
  net_budget_impact :: "real list"
  threshold_exceedances :: int
  statistics :: statistics_dict

record MonteCarloSimulator =
  num_simulations :: int
  budget_threshold :: real
  random_seed :: "int option"

text \<open>\<^verbatim>\<open>MonteCarloSimulator.__init__\<close>: stores the three arguments and, when a seed is
  given, seeds the global generator.\<close>

definition MonteCarloSimulator_init ::
  "'g numerics \<Rightarrow> int \<Rightarrow> real \<Rightarrow> int option \<Rightarrow> 'g \<Rightarrow> error + (MonteCarloSimulator \<times> 'g)" where
  "MonteCarloSimulator_init L n threshold seed g =
     (let self = \<lparr>num_simulations = n, budget_threshold = threshold, random_seed = seed\<rparr>
      in case seed of
           None \<Rightarrow> Inr (self, g)
         | Some s \<Rightarrow> (case np_random_seed L s of Inl e \<Rightarrow> Inl e | Inr g0 \<Rightarrow> Inr (self, g0)))"

text \<open>The entries mean, median, std, min and max that \<open>_calculate_statistics\<close> computes
  for each of the three arrays, in this order; \<^verbatim>\<open>np.min\<close> raises on an empty array.\<close>

definition summary_of :: "real list \<Rightarrow> error + summary" where
  "summary_of xs =
     (case np_min xs of
        Inl e \<Rightarrow> Inl e
      | Inr lo \<Rightarrow>
          (case np_max xs of
             Inl e \<Rightarrow> Inl e
           | Inr hi \<Rightarrow>
               Inr \<lparr>stat_mean = np_mean xs, stat_median = np_median xs, stat_std = np_std xs,
                    stat_min = lo, stat_max = hi\<rparr>))"

text \<open>\<^verbatim>\<open>{p: float(np.percentile(a, p)) for p in PERCENTILES}\<close>\<close>

definition percentiles_of :: "real list \<Rightarrow> (nat \<times> real) list" where
  "percentiles_of xs = map (\<lambda>p. (p, np_percentile xs (real p))) PERCENTILES"

text \<open>The local function \<open>ci\<close> of \<open>_calculate_confidence_intervals\<close>.\<close>

definition ci :: "'g numerics \<Rightarrow> real list \<Rightarrow> interval" where
  "ci L data =
     (let m = mean_or_nan data;
          sem = scipy_sem data;
          iv = t_interval L CONFIDENCE_LEVEL (int (length data) - 1) m sem
      in \<lparr>lower = fst iv, upper = snd iv\<rparr>)"

definition calculate_confidence_intervals ::
  "'g numerics \<Rightarrow> real list \<Rightarrow> real list \<Rightarrow> real list \<Rightarrow> confidence_intervals" where
  "calculate_confidence_intervals L totals revs net =
     \<lparr>ci_total_costs = ci L totals, ci_revenues = ci L revs, ci_net_budget_impact = ci L net\<rparr>"

definition calculate_statistics ::
  "'g numerics \<Rightarrow> MonteCarloSimulator \<Rightarrow> DataFrame \<Rightarrow> real list \<Rightarrow> real list \<Rightarrow> real list \<Rightarrow> int
     \<Rightarrow> error + statistics_dict" where
  "calculate_statistics L self costs totals revs net exceed =
     (case summary_of totals of
        Inl e \<Rightarrow> Inl e
      | Inr s_total \<Rightarrow>
     (case summary_of revs of
        Inl e \<Rightarrow> Inl e
      | Inr s_rev \<Rightarrow>
     (case summary_of net of
        Inl e \<Rightarrow> Inl e
      | Inr s_net \<Rightarrow>
          Inr \<lparr>stats_num_simulations = num_simulations self,
               stats_budget_threshold = budget_threshold self,
               stats_total_costs = s_total,
               stats_total_costs_percentiles = percentiles_of totals,
               stats_revenues = s_rev,
               stats_net_budget_impact = s_net,
               stats_net_budget_impact_percentiles = percentiles_of net,
               stats_threshold_analysis =
                 \<lparr>exceedances = exceed,
                  probability =
                    np_true_divide (Finite (real_of_int exceed))
                      (Finite (real_of_int (num_simulations self))),
                  percentage =
                    np_true_divide (Finite (100 * real_of_int exceed))
                      (Finite (real_of_int (num_simulations self)))\<rparr>,
               stats_confidence_intervals = calculate_confidence_intervals L totals revs net,
               stats_policy_statistics =
                 map (\<lambda>(policy_key, col).
                        (policy_key,
                         \<lparr>policy_mean = mean_or_nan col, policy_std = sample_std col,
                          policy_median = median_or_nan col\<rparr>)) costs\<rparr>)))"

text \<open>The loop of \<open>run_simulation\<close> over the items of the policy table: one call of
  \<open>sample\<close> per policy, each continuing from the generator state the previous one left,
  the columns stored under their keys.\<close>

fun sample_policies ::
  "'g numerics \<Rightarrow> parameters \<Rightarrow> int \<Rightarrow> (string \<times> real list) list \<Rightarrow> 'g
     \<Rightarrow> error + ((string \<times> real list) list \<times> 'g)" where
  "sample_policies L [] n d g = Inr (d, g)"
| "sample_policies L ((policy_key, policy_param) # items) n d g =
     (case sample L policy_param n None g of
        Inl e \<Rightarrow> Inl e
      | Inr (costs, g1) \<Rightarrow> sample_policies L items n (AList.update policy_key costs d) g1)"

text \<open>\<^verbatim>\<open>np.sum(total_costs > threshold)\<close>\<close>

definition count_exceedances :: "real list \<Rightarrow> real \<Rightarrow> int" where
  "count_exceedances totals threshold = int (length (filter (\<lambda>c. c > threshold) totals))"

text \<open>\<open>run_simulation\<close>, with the two parameter tables and the generator state as
  arguments; it returns the results and the generator state it leaves. The progress lines
  it prints are left out.\<close>

definition run_simulation ::
  "'g numerics \<Rightarrow> parameters \<Rightarrow> parameters \<Rightarrow> MonteCarloSimulator \<Rightarrow> 'g
     \<Rightarrow> error + (SimulationResults \<times> 'g)" where
  "run_simulation L policy_parameters revenue_parameters self g =
     (case sample_policies L policy_parameters (num_simulations self) [] g of
        Inl e \<Rightarrow> Inl e
      | Inr (policy_costs_dict, g1) \<Rightarrow>
     (case map_of revenue_parameters ''tax_increases'' of
        None \<Rightarrow> Inl (KeyError ''tax_increases'')
      | Some revenue_param \<Rightarrow>
     (case sample L revenue_param (num_simulations self) None g1 of
        Inl e \<Rightarrow> Inl e
      | Inr (revs, g2) \<Rightarrow>
     (case pd_DataFrame policy_costs_dict of
        Inl e \<Rightarrow> Inl e
      | Inr policy_costs_df \<Rightarrow>
     (let totals = df_sum_axis1 policy_costs_df in
      case np_subtract totals revs of
        Inl e \<Rightarrow> Inl e
      | Inr net \<Rightarrow>
     (let exceed = count_exceedances totals (budget_threshold self) in
      case calculate_statistics L self policy_costs_df totals revs net exceed of
        Inl e \<Rightarrow> Inl e
      | Inr st \<Rightarrow>
          Inr (\<lparr>policy_costs = policy_costs_df, total_costs = totals, revenues = revs,
                net_budget_impact = net, threshold_exceedances = exceed,
                statistics = st\<rparr>, g2)))))))"

text \<open>What main.py and the tests do: construct the simulator, then call
  \<open>run_simulation\<close> on it.\<close>

definition construct_and_run ::
  "'g numerics \<Rightarrow> parameters \<Rightarrow> parameters \<Rightarrow> int \<Rightarrow> real \<Rightarrow> int option \<Rightarrow> 'g
     \<Rightarrow> error + (SimulationResults \<times> 'g)" where
  "construct_and_run L policy_parameters revenue_parameters n threshold seed g =
     (case MonteCarloSimulator_init L n threshold seed g of
        Inl e \<Rightarrow> Inl e
      | Inr (simulator, g0) \<Rightarrow> run_simulation L policy_parameters revenue_parameters simulator g0)"

text \<open>Two successive calls of \<open>run_simulation\<close> on one simulator: the second starts in
  the generator state the first has left.\<close>

definition run_twice ::
  "'g numerics \<Rightarrow> parameters \<Rightarrow> parameters \<Rightarrow> MonteCarloSimulator \<Rightarrow> 'g
     \<Rightarrow> error + (SimulationResults \<times> SimulationResults \<times> 'g)" where
  "run_twice L policy_parameters revenue_parameters self g =
     (case run_simulation L policy_parameters revenue_parameters self g of
        Inl e \<Rightarrow> Inl e
      | Inr (first, g1) \<Rightarrow>
          (case run_simulation L policy_parameters revenue_parameters self g1 of
             Inl e \<Rightarrow> Inl e
           | Inr (second, g2) \<Rightarrow> Inr (first, second, g2)))"

text \<open>One entry of the sensitivity dict.\<close>

record sensitivity_entry =
  variance :: np_float
  contribution_to_total :: np_float
  contribution_percentage :: np_float

text \<open>\<^verbatim>\<open>sorted(items, key=..., reverse=True)\<close>: a stable sort into descending order of the
  key, by insertion. Python's sort is stable, hence gives this list whenever the keys are
  totally ordered by \<^verbatim>\<open><\<close>; where a key is nan the order Python produces depends on its
  merge strategy, and the entries are the same.\<close>

fun insert_desc ::
  "(string \<times> sensitivity_entry) \<Rightarrow> (string \<times> sensitivity_entry) list
     \<Rightarrow> (string \<times> sensitivity_entry) list" where
  "insert_desc x [] = [x]"
| "insert_desc x (y # ys) =
     (if float_lt (contribution_to_total (snd x)) (contribution_to_total (snd y))
      then y # insert_desc x ys else x # y # ys)"

definition sorted_by_contribution ::
  "(string \<times> sensitivity_entry) list \<Rightarrow> (string \<times> sensitivity_entry) list" where
  "sorted_by_contribution items = foldr insert_desc items []"

text \<open>The last loop of \<open>run_sensitivity_analysis\<close>, which prints one line per entry of
  the sorted dict: it looks the key up in the module's policy table,
  \<^verbatim>\<open>POLICY_PARAMETERS[policy_key].name\<close>, and that raises KeyError for a key the table does
  not have. The result is the list of names printed (the percentage printed after each
  name is left out; formatting a float, nan included, does not raise).\<close>

fun print_contributions ::
  "parameters \<Rightarrow> (string \<times> sensitivity_entry) list \<Rightarrow> error + string list" where
  "print_contributions policy_parameters [] = Inr []"
| "print_contributions policy_parameters ((policy_key, sens) # items) =
     (case map_of policy_parameters policy_key of
        None \<Rightarrow> Inl (KeyError policy_key)
      | Some param \<Rightarrow>
          (case print_contributions policy_parameters items of
             Inl e \<Rightarrow> Inl e
           | Inr names \<Rightarrow> Inr (name param # names)))"

text \<open>\<open>run_sensitivity_analysis\<close>, with the module's policy table as an argument; the
  simulator argument is not used by the function. \<open>total_costs\<close> is an ndarray and each
  column of \<open>policy_costs\<close> a Series. The dict is returned only after the printing loop, so
  a KeyError there is the outcome of the call.\<close>

definition run_sensitivity_analysis ::
  "'g numerics \<Rightarrow> parameters \<Rightarrow> MonteCarloSimulator \<Rightarrow> SimulationResults
     \<Rightarrow> error + (string \<times> sensitivity_entry) list" where
  "run_sensitivity_analysis L policy_parameters base_simulator results =
     (let base_variance = var_or_nan (ndarray_var L) (total_costs results);
          sensitivity =
            map (\<lambda>(policy_key, col).
                   (let policy_variance = var_or_nan (series_var L) col;
                        contribution = np_true_divide policy_variance base_variance
                    in (policy_key,
                        \<lparr>variance = policy_variance,
                         contribution_to_total = contribution,
                         contribution_percentage = np_multiply (Finite 100) contribution\<rparr>)))
              (policy_costs results);
          sorted = sorted_by_contribution sensitivity
      in case print_contributions policy_parameters sorted of
           Inl e \<Rightarrow> Inl e
         | Inr names \<Rightarrow> Inr sorted)"


section \<open>Well-formed columns\<close>

text \<open>A column of a result with \<open>n\<close> trials: \<open>n\<close> values, none negative.\<close>

definition column_ok :: "int \<Rightarrow> real list \<Rightarrow> bool" where
  "column_ok n col \<longleftrightarrow> int (length col) = n \<and> (\<forall>x\<in>set col. 0 \<le> x)"


section \<open>A small generator for evaluating the model\<close>

text \<open>A deterministic stand-in for numpy's generator, scipy's quantile function and the
  computed variances, used only to evaluate the definitions on concrete inputs: the state
  is a counter, seeding sets the counter, the standard draws cycle through \<open>-1, 0, 1\<close>, and
  the variances are the exact ones.\<close>

definition counter_numerics :: "nat numerics" where
  "counter_numerics =
     \<lparr>rng_seed = (\<lambda>s. nat s),
      rng_normal = (\<lambda>g loc scale. (loc + scale * (real (g mod 3) - 1), g + 1)),
      t_ppf = (\<lambda>q df. if q < 1 / 2 then - 2 else 2),
      ndarray_var = np_var,
      series_var = np_var\<rparr>"


text \<open>A simulator of three trials, seeded with 42, whose threshold is the total cost of
  its second trial under the generator above.\<close>

definition demo_simulator :: MonteCarloSimulator where
  "demo_simulator = \<lparr>num_simulations = 3, budget_threshold = 671 / 40, random_seed = Some 42\<rparr>"


section \<open>Sampling\<close>

lemma normal_draws_length: "length (fst (normal_draws L loc scale n g)) = n"
proof (induction n arbitrary: g)
  case 0
  show ?case by simp
next
  case (Suc n)
  obtain x g1 where a: "rng_normal L g loc scale = (x, g1)" by (cases "rng_normal L g loc scale")
  obtain xs g2 where b: "normal_draws L loc scale n g1 = (xs, g2)"
    by (cases "normal_draws L loc scale n g1")
  show ?case using Suc.IH [of g1] a b by simp
qed

lemma sample_Inr:
  assumes "0 \<le> std_dev p" "0 \<le> n" "\<forall>s. seed = Some s \<longrightarrow> 0 \<le> s \<and> s < 2 ^ 32"
  shows "\<exists>xs g'. sample L p n seed g = Inr (xs, g') \<and> int (length xs) = n \<and> (\<forall>x\<in>set xs. 0 \<le> x)"
proof -
  obtain g0 where g0: "(case seed of None \<Rightarrow> Inr g | Some s \<Rightarrow> np_random_seed L s) = Inr g0"
    using assms(3) by (cases seed) (auto simp: np_random_seed_def)
  obtain ys g1 where d: "normal_draws L (mean p) (std_dev p) (nat n) g0 = (ys, g1)"
    by (cases "normal_draws L (mean p) (std_dev p) (nat n) g0")
  have len: "length ys = nat n"
    using normal_draws_length [of L "mean p" "std_dev p" "nat n" g0] d by simp
  have "sample L p n seed g = Inr (np_maximum ys 0, g1)"
    using assms(1,2) g0 d by (simp add: sample_def np_random_normal_def)
  moreover have "int (length (np_maximum ys 0)) = n"
    using len assms(2) by (simp add: np_maximum_def)
  moreover have "\<forall>x\<in>set (np_maximum ys 0). 0 \<le> x"
    by (auto simp: np_maximum_def)
  ultimately show ?thesis by blast
qed

lemma sample_None_Inr:
  assumes "sample L p n None g = Inr (xs, g')"
  shows "0 \<le> n \<and> 0 \<le> std_dev p \<and> length xs = nat n \<and> (\<forall>x\<in>set xs. 0 \<le> x) \<and>
         xs = np_maximum (fst (normal_draws L (mean p) (std_dev p) (nat n) g)) 0 \<and>
         g' = snd (normal_draws L (mean p) (std_dev p) (nat n) g)"
proof -
  have ok: "\<not> (std_dev p < 0 \<or> n < 0)"
    using assms by (auto simp: sample_def np_random_normal_def split: if_splits)
  then have eq: "(xs, g') = (np_maximum (fst (normal_draws L (mean p) (std_dev p) (nat n) g)) 0,
                   snd (normal_draws L (mean p) (std_dev p) (nat n) g))"
    using assms by (auto simp: sample_def np_random_normal_def split: prod.splits)
  then have "length xs = nat n"
    by (simp add: np_maximum_def normal_draws_length)
  moreover have "\<forall>x\<in>set xs. 0 \<le> x" using eq by (auto simp: np_maximum_def)
  ultimately show ?thesis using ok eq by auto
qed

lemma counter_draws:
  "normal_draws counter_numerics loc scale 3 g =
     ([loc + scale * (real (g mod 3) - 1),
       loc + scale * (real ((g + 1) mod 3) - 1),
       loc + scale * (real ((g + 2) mod 3) - 1)], g + 3)"
proof -
  have "normal_draws counter_numerics loc scale (Suc (Suc (Suc 0))) g =
     ([loc + scale * (real (g mod 3) - 1),
       loc + scale * (real ((g + 1) mod 3) - 1),
       loc + scale * (real ((g + 2) mod 3) - 1)], g + 3)"
    by (simp add: counter_numerics_def)
  then show ?thesis by (simp only: numeral_3_eq_3)
qed

lemma counter_sample:
  "sample counter_numerics p 3 None g =
     (if std_dev p < 0 then Inl (ValueError FromNumpy)
      else Inr ([max (mean p + std_dev p * (real (g mod 3) - 1)) 0,
                 max (mean p + std_dev p * (real ((g + 1) mod 3) - 1)) 0,
                 max (mean p + std_dev p * (real ((g + 2) mod 3) - 1)) 0], g + 3))"
  by (simp add: sample_def np_random_normal_def np_maximum_def counter_draws)

text \<open>
  Claim C2. For every PolicyParameter with mean \<open>\<ge> 0\<close> and standard deviation \<open>\<ge> 0\<close> and
  every count \<open>N \<ge> 0\<close>, \<open>sample(N)\<close> returns (it does not raise), from whatever state the
  generator is in; it returns exactly \<open>N\<close> values, each the maximum of a draw and 0, so
  none is negative.
\<close>

theorem sample_count_and_nonneg:
  assumes "0 \<le> mean p" and "0 \<le> std_dev p" and "0 \<le> n"
  shows "\<exists>xs g'. sample L p n None g = Inr (xs, g') \<and> int (length xs) = n \<and>
           (\<forall>x\<in>set xs. 0 \<le> x) \<and>
           xs = map (\<lambda>x. max x 0) (fst (normal_draws L (mean p) (std_dev p) (nat n) g))"
proof -
  have "\<exists>xs g'. sample L p n None g = Inr (xs, g') \<and> int (length xs) = n \<and>
          (\<forall>x\<in>set xs. 0 \<le> x)"
    by (rule sample_Inr) (use assms in simp_all)
  then obtain xs g' where
    s: "sample L p n None g = Inr (xs, g')" and
    l: "int (length xs) = n" and nn: "\<forall>x\<in>set xs. 0 \<le> x"
    by blast
  have "xs = np_maximum (fst (normal_draws L (mean p) (std_dev p) (nat n) g)) 0"
    using sample_None_Inr [OF s] by blast
  then have x: "xs = map (\<lambda>x. max x 0) (fst (normal_draws L (mean p) (std_dev p) (nat n) g))"
    by (simp only: np_maximum_def)
  show ?thesis using s l nn x by blast
qed

theorem sample_count_and_nonneg_witness:
  "0 \<le> mean \<lparr>name = ''p'', mean = 1, std_dev = 2, description = [], source = []\<rparr> \<and>
   0 \<le> std_dev \<lparr>name = ''p'', mean = 1, std_dev = 2, description = [], source = []\<rparr> \<and>
   (0::int) \<le> 3 \<and>
   fst (normal_draws counter_numerics 1 2 3 0) = [- 1, 1, 3] \<and>
   (\<exists>g'. sample counter_numerics
        \<lparr>name = ''p'', mean = 1, std_dev = 2, description = [], source = []\<rparr> 3 None 0
          = Inr ([0, 1, 3], g'))"
proof -
  let ?p = "\<lparr>name = ''p'', mean = 1, std_dev = 2, description = [], source = []\<rparr>"
  have h: "0 \<le> mean ?p" "0 \<le> std_dev ?p" "(0::int) \<le> 3" by simp_all
  have d: "fst (normal_draws counter_numerics 1 2 3 0) = [- 1, 1, 3]"
    by (simp add: counter_draws)
  have n3: "nat 3 = 3" by simp
  from sample_count_and_nonneg [OF h, of counter_numerics 0] obtain xs g' where
    s: "sample counter_numerics ?p 3 None 0 = Inr (xs, g')" and
    x: "xs = map (\<lambda>x. max x 0)
              (fst (normal_draws counter_numerics (mean ?p) (std_dev ?p) (nat 3) 0))"
    by blast
  have "mean ?p = 1" "std_dev ?p = 2" by simp_all
  then have "xs = map (\<lambda>x. max x 0) (fst (normal_draws counter_numerics 1 2 3 0))"
    using x n3 by (simp only:)
  then have "xs = [0, 1, 3]" unfolding d by simp
  then show ?thesis using s d h by blast
qed


section \<open>Validation\<close>










section \<open>The simulation run\<close>

lemma set_update_subset: "set (AList.update k v d) \<subseteq> insert (k, v) (set d)"
  by (induction d) auto

lemma update_not_Nil: "AList.update k v d \<noteq> []"
  by (cases d) auto

lemma sample_policies_columns:
  "sample_policies L items n d g = Inr (d', g') \<Longrightarrow>
   \<forall>(k, col)\<in>set d. column_ok n col \<Longrightarrow> \<forall>(k, col)\<in>set d'. column_ok n col"
proof (induction items arbitrary: d g)
  case Nil
  then show ?case by simp
next
  case (Cons item items)
  obtain key param where item: "item = (key, param)" by (cases item)
  from Cons.prems(1) item obtain costs g1 where
    s: "sample L param n None g = Inr (costs, g1)" and
    r: "sample_policies L items n (AList.update key costs d) g1 = Inr (d', g')"
    by (auto split: sum.splits)
  have "column_ok n costs" using sample_None_Inr [OF s] by (auto simp: column_ok_def)
  then have "\<forall>(k, col)\<in>set (AList.update key costs d). column_ok n col"
    using Cons.prems(2) set_update_subset [of key costs d] by auto
  then show ?case using Cons.IH [OF r] by blast
qed

lemma sample_policies_keeps_entries:
  "sample_policies L items n d g = Inr (d', g') \<Longrightarrow> d \<noteq> [] \<Longrightarrow> d' \<noteq> []"
proof (induction items arbitrary: d g)
  case Nil
  then show ?case by simp
next
  case (Cons item items)
  obtain key param where item: "item = (key, param)" by (cases item)
  from Cons.prems(1) item obtain costs g1 where
    r: "sample_policies L items n (AList.update key costs d) g1 = Inr (d', g')"
    by (auto split: sum.splits)
  show ?case using Cons.IH [OF r update_not_Nil] .
qed

lemma sample_policies_nonempty:
  assumes "sample_policies L items n [] g = Inr (d', g')" and "items \<noteq> []"
  shows "d' \<noteq> []"
proof -
  obtain key param rest where items: "items = (key, param) # rest"
    using assms(2) by (cases items) auto
  from assms(1) items obtain costs g1 where
    r: "sample_policies L rest n (AList.update key costs []) g1 = Inr (d', g')"
    by (auto split: sum.splits)
  show ?thesis using sample_policies_keeps_entries [OF r update_not_Nil] .
qed

lemma foldl_columns_length:
  "\<forall>(k, col)\<in>set df. length col = m \<Longrightarrow> length acc = m \<Longrightarrow>
   length (foldl (\<lambda>acc (k, col). map2 (+) acc col) acc df) = m"
  by (induction df arbitrary: acc) auto

lemma foldl_columns_nth:
  "\<forall>(k, col)\<in>set df. length col = m \<Longrightarrow> length acc = m \<Longrightarrow> i < m \<Longrightarrow>
   foldl (\<lambda>acc (k, col). map2 (+) acc col) acc df ! i
     = (acc ! i :: real) + sum_list (map (\<lambda>(k, col). col ! i) df)"
proof (induction df arbitrary: acc)
  case Nil
  then show ?case by simp
next
  case (Cons kc df)
  obtain k c where kc: "kc = (k, c)" by (cases kc)
  have lc: "length c = m" using Cons.prems(1) kc by auto
  have l: "length (map2 (+) acc c) = m" using lc Cons.prems(2) by simp
  have rest: "\<forall>(k, col)\<in>set df. length col = m" using Cons.prems(1) by auto
  have "foldl (\<lambda>acc (k, col). map2 (+) acc col) (map2 (+) acc c) df ! i
          = map2 (+) acc c ! i + sum_list (map (\<lambda>(k, col). col ! i) df)"
    using Cons.IH [OF rest l Cons.prems(3)] .
  moreover have "map2 (+) acc c ! i = acc ! i + c ! i"
    using lc Cons.prems(2,3) by simp
  ultimately show ?case using kc by simp
qed

lemma df_sum_axis1_length:
  "\<forall>(k, col)\<in>set df. length col = nrows df \<Longrightarrow> length (df_sum_axis1 df) = nrows df"
  unfolding df_sum_axis1_def by (rule foldl_columns_length) auto

lemma df_sum_axis1_nth:
  "\<forall>(k, col)\<in>set df. length col = nrows df \<Longrightarrow> i < nrows df \<Longrightarrow>
   df_sum_axis1 df ! i = sum_list (map (\<lambda>(k, col). col ! i) df)"
  unfolding df_sum_axis1_def using foldl_columns_nth [of df "nrows df" "replicate (nrows df) 0" i]
  by simp

lemma run_simulation_Inr:
  assumes "run_simulation L policy_parameters revenue_parameters self g = Inr (r, g')"
  shows "\<exists>g1 revenue_param.
      sample_policies L policy_parameters (num_simulations self) [] g = Inr (policy_costs r, g1) \<and>
      map_of revenue_parameters ''tax_increases'' = Some revenue_param \<and>
      sample L revenue_param (num_simulations self) None g1 = Inr (revenues r, g') \<and>
      pd_DataFrame (policy_costs r) = Inr (policy_costs r) \<and>
      total_costs r = df_sum_axis1 (policy_costs r) \<and>
      np_subtract (total_costs r) (revenues r) = Inr (net_budget_impact r) \<and>
      threshold_exceedances r = count_exceedances (total_costs r) (budget_threshold self) \<and>
      calculate_statistics L self (policy_costs r) (total_costs r) (revenues r)
        (net_budget_impact r) (threshold_exceedances r) = Inr (statistics r)"
  using assms unfolding run_simulation_def Let_def pd_DataFrame_def
  by (auto split: sum.splits option.splits prod.splits if_splits)

lemma summary_of_Inr: "summary_of xs = Inr s \<Longrightarrow> xs \<noteq> []"
  by (cases xs) (auto simp: summary_of_def)

lemma summary_of_nonempty: "xs \<noteq> [] \<Longrightarrow> \<exists>s. summary_of xs = Inr s"
  by (cases xs) (auto simp: summary_of_def)

lemma calculate_statistics_Inr:
  assumes "calculate_statistics L self costs totals revs net exceed = Inr st"
  shows "totals \<noteq> [] \<and> revs \<noteq> [] \<and> net \<noteq> [] \<and>
         stats_total_costs_percentiles st = percentiles_of totals \<and>
         stats_threshold_analysis st =
           \<lparr>exceedances = exceed,
            probability = np_true_divide (Finite (real_of_int exceed))
                            (Finite (real_of_int (num_simulations self))),
            percentage = np_true_divide (Finite (100 * real_of_int exceed))
                            (Finite (real_of_int (num_simulations self)))\<rparr> \<and>
         stats_confidence_intervals st = calculate_confidence_intervals L totals revs net"
  using assms unfolding calculate_statistics_def
  by (auto split: sum.splits dest: summary_of_Inr)

lemma calculate_statistics_nonempty:
  assumes "totals \<noteq> []" "revs \<noteq> []" "net \<noteq> []"
  shows "\<exists>st. calculate_statistics L self costs totals revs net exceed = Inr st"
proof -
  obtain a where a: "summary_of totals = Inr a" using summary_of_nonempty [OF assms(1)] by blast
  obtain b where b: "summary_of revs = Inr b" using summary_of_nonempty [OF assms(2)] by blast
  obtain c where c: "summary_of net = Inr c" using summary_of_nonempty [OF assms(3)] by blast
  show ?thesis unfolding calculate_statistics_def by (simp add: a b c)
qed

lemma nrows_columns:
  assumes "df \<noteq> []" and "\<forall>(k, col)\<in>set df. column_ok n col"
  shows "nrows df = nat n \<and> (\<forall>(k, col)\<in>set df. length col = nrows df)"
proof -
  obtain k c rest where df: "df = (k, c) # rest" using assms(1) by (cases df) auto
  have "length c = nat n" using assms(2) df by (auto simp: column_ok_def)
  then have n: "nrows df = nat n" using df by (simp add: nrows_def)
  moreover have "\<forall>(k, col)\<in>set df. length col = nat n"
    using assms(2) by (auto simp: column_ok_def)
  ultimately show ?thesis by simp
qed

lemma run_simulation_shape:
  assumes "run_simulation L policy_parameters revenue_parameters self g = Inr (r, g')"
  shows "1 \<le> num_simulations self \<and> policy_costs r \<noteq> [] \<and>
         (\<forall>(k, col)\<in>set (policy_costs r). column_ok (num_simulations self) col) \<and>
         nrows (policy_costs r) = nat (num_simulations self) \<and>
         int (length (total_costs r)) = num_simulations self \<and>
         column_ok (num_simulations self) (revenues r) \<and>
         net_budget_impact r = map2 (-) (total_costs r) (revenues r)"
proof -
  let ?n = "num_simulations self"
  from run_simulation_Inr [OF assms] obtain g1 revenue_param where
    sp: "sample_policies L policy_parameters ?n [] g = Inr (policy_costs r, g1)" and
    sr: "sample L revenue_param ?n None g1 = Inr (revenues r, g')" and
    tot: "total_costs r = df_sum_axis1 (policy_costs r)" and
    sub: "np_subtract (total_costs r) (revenues r) = Inr (net_budget_impact r)" and
    st: "calculate_statistics L self (policy_costs r) (total_costs r) (revenues r)
           (net_budget_impact r) (threshold_exceedances r) = Inr (statistics r)"
    by blast
  have cols: "\<forall>(k, col)\<in>set (policy_costs r). column_ok ?n col"
    using sample_policies_columns [OF sp] by simp
  have n0: "0 \<le> ?n" and rl: "length (revenues r) = nat ?n" and rp: "\<forall>x\<in>set (revenues r). 0 \<le> x"
    using sample_None_Inr [OF sr] by auto
  have ne: "total_costs r \<noteq> []" using calculate_statistics_Inr [OF st] by simp
  have pne: "policy_costs r \<noteq> []"
  proof
    assume "policy_costs r = []"
    then have "total_costs r = []" using tot by (simp add: df_sum_axis1_def nrows_def)
    then show False using ne by simp
  qed
  have nr: "nrows (policy_costs r) = nat ?n"
    and cl: "\<forall>(k, col)\<in>set (policy_costs r). length col = nrows (policy_costs r)"
    using nrows_columns [OF pne cols] by auto
  have tl: "length (total_costs r) = nat ?n"
    using df_sum_axis1_length [OF cl] tot nr by simp
  have n1: "1 \<le> ?n" using tl ne by (cases "?n \<le> 0") auto
  have net: "net_budget_impact r = map2 (-) (total_costs r) (revenues r)"
    using sub tl rl by (simp add: np_subtract_def)
  have "column_ok ?n (revenues r)" using rl rp n0 by (simp add: column_ok_def)
  then show ?thesis using n1 pne cols nr tl n0 net by simp
qed

lemma sample_policies_succeeds:
  "\<forall>(k, p)\<in>set items. 0 \<le> std_dev p \<Longrightarrow> 0 \<le> n \<Longrightarrow>
   \<exists>d' g'. sample_policies L items n d g = Inr (d', g')"
proof (induction items arbitrary: d g)
  case Nil
  then show ?case by simp
next
  case (Cons item items)
  obtain key param where item: "item = (key, param)" by (cases item)
  have "0 \<le> std_dev param" using Cons.prems(1) item by auto
  then obtain costs g1 where s: "sample L param n None g = Inr (costs, g1)"
    using sample_Inr [of param n None L g] Cons.prems(2) by auto
  have rest: "\<forall>(k, p)\<in>set items. 0 \<le> std_dev p" using Cons.prems(1) by auto
  show ?case using Cons.IH [OF rest Cons.prems(2), of "AList.update key costs d" g1] item s
    by simp
qed

lemma run_simulation_succeeds:
  assumes pne: "policy_parameters \<noteq> []"
    and pstd: "\<forall>(k, p)\<in>set policy_parameters. 0 \<le> std_dev p"
    and rkey: "map_of revenue_parameters ''tax_increases'' = Some revenue_param"
    and rstd: "0 \<le> std_dev revenue_param"
    and n1: "1 \<le> num_simulations self"
  shows "\<exists>r g'. run_simulation L policy_parameters revenue_parameters self g = Inr (r, g')"
proof -
  let ?n = "num_simulations self"
  have n0: "0 \<le> ?n" using n1 by simp
  obtain d g1 where sp: "sample_policies L policy_parameters ?n [] g = Inr (d, g1)"
    using sample_policies_succeeds [OF pstd n0, of L "[]" g] by blast
  obtain revs g2 where sr: "sample L revenue_param ?n None g1 = Inr (revs, g2)"
    using sample_Inr [of revenue_param ?n None L g1] rstd n0 by auto
  have rl: "length revs = nat ?n" using sample_None_Inr [OF sr] by blast
  have dne: "d \<noteq> []" using sample_policies_nonempty [OF sp pne] .
  have cols: "\<forall>(k, col)\<in>set d. column_ok ?n col" using sample_policies_columns [OF sp] by simp
  have nr: "nrows d = nat ?n" and cl: "\<forall>(k, col)\<in>set d. length col = nrows d"
    using nrows_columns [OF dne cols] by auto
  have df: "pd_DataFrame d = Inr d"
    using cl by (auto simp: pd_DataFrame_def list_all_iff)
  have tl: "length (df_sum_axis1 d) = nat ?n" using df_sum_axis1_length [OF cl] nr by simp
  have sub: "np_subtract (df_sum_axis1 d) revs = Inr (map2 (-) (df_sum_axis1 d) revs)"
    using tl rl by (simp add: np_subtract_def)
  have pos: "0 < nat ?n" using n1 by simp
  have t_ne: "df_sum_axis1 d \<noteq> []" using tl pos by auto
  have r_ne: "revs \<noteq> []" using rl pos by auto
  have n_ne: "map2 (-) (df_sum_axis1 d) revs \<noteq> []" using t_ne r_ne by (cases "df_sum_axis1 d"; cases revs) auto
  obtain st where st: "calculate_statistics L self d (df_sum_axis1 d) revs
      (map2 (-) (df_sum_axis1 d) revs)
      (count_exceedances (df_sum_axis1 d) (budget_threshold self)) = Inr st"
    using calculate_statistics_nonempty [OF t_ne r_ne n_ne] by blast
  show ?thesis unfolding run_simulation_def Let_def
    by (simp add: sp rkey sr df sub st)
qed

subsection \<open>One run, evaluated\<close>

lemma counter_sample_policies:
  "sample_policies counter_numerics POLICY_PARAMETERS 3 [] 42 =
     Inr ([(''free_buses'', [3 / 5, 7 / 10, 4 / 5]),
           (''universal_childcare'', [5, 6, 7]),
           (''affordable_housing'', [17 / 2, 10, 23 / 2]),
           (''government_grocery_stores'', [1 / 20, 3 / 40, 1 / 10])], 54)"
  by (simp add: POLICY_PARAMETERS_def counter_sample)

lemma counter_sample_revenue:
  "map_of REVENUE_PARAMETERS ''tax_increases'' = Some p \<Longrightarrow>
   sample counter_numerics p 3 None 54 = Inr ([17 / 2, 10, 23 / 2], 57)"
  by (auto simp add: REVENUE_PARAMETERS_def counter_sample)

lemma demo_run:
  "\<exists>r g'. run_simulation counter_numerics POLICY_PARAMETERS REVENUE_PARAMETERS demo_simulator 42
             = Inr (r, g') \<and>
     policy_costs r =
       [(''free_buses'', [3 / 5, 7 / 10, 4 / 5]),
        (''universal_childcare'', [5, 6, 7]),
        (''affordable_housing'', [17 / 2, 10, 23 / 2]),
        (''government_grocery_stores'', [1 / 20, 3 / 40, 1 / 10])] \<and>
     total_costs r = [283 / 20, 671 / 40, 97 / 5] \<and>
     revenues r = [17 / 2, 10, 23 / 2] \<and>
     net_budget_impact r = [113 / 20, 271 / 40, 79 / 10] \<and>
     threshold_exceedances r = 1 \<and> g' = 57"
proof -
  have "\<exists>r g'. run_simulation counter_numerics POLICY_PARAMETERS REVENUE_PARAMETERS
          demo_simulator 42 = Inr (r, g')"
    by (rule run_simulation_succeeds [where revenue_param = "snd (hd REVENUE_PARAMETERS)"])
       (simp_all add: POLICY_PARAMETERS_def REVENUE_PARAMETERS_def demo_simulator_def)
  then obtain r g' where run:
    "run_simulation counter_numerics POLICY_PARAMETERS REVENUE_PARAMETERS demo_simulator 42
       = Inr (r, g')" by blast
  from run_simulation_Inr [OF run] obtain g1 revenue_param where
    sp: "sample_policies counter_numerics POLICY_PARAMETERS (num_simulations demo_simulator) [] 42
           = Inr (policy_costs r, g1)" and
    rk: "map_of REVENUE_PARAMETERS ''tax_increases'' = Some revenue_param" and
    sr: "sample counter_numerics revenue_param (num_simulations demo_simulator) None g1
           = Inr (revenues r, g')" and
    tot: "total_costs r = df_sum_axis1 (policy_costs r)" and
    ex: "threshold_exceedances r = count_exceedances (total_costs r) (budget_threshold demo_simulator)"
    by blast
  have n: "num_simulations demo_simulator = 3" by (simp add: demo_simulator_def)
  have pc: "policy_costs r =
       [(''free_buses'', [3 / 5, 7 / 10, 4 / 5]),
        (''universal_childcare'', [5, 6, 7]),
        (''affordable_housing'', [17 / 2, 10, 23 / 2]),
        (''government_grocery_stores'', [1 / 20, 3 / 40, 1 / 10])]" and g1: "g1 = 54"
    using sp unfolding n counter_sample_policies by simp_all
  have rv: "revenues r = [17 / 2, 10, 23 / 2]" and g': "g' = 57"
    using sr counter_sample_revenue [OF rk] unfolding n g1 by simp_all
  have tc: "total_costs r = [283 / 20, 671 / 40, 97 / 5]"
    unfolding tot pc by (simp add: df_sum_axis1_def nrows_def numeral_3_eq_3)
  have net: "net_budget_impact r = [113 / 20, 271 / 40, 79 / 10]"
    using run_simulation_shape [OF run] unfolding tc rv by simp
  have "threshold_exceedances r = 1"
    unfolding ex tc by (simp add: count_exceedances_def demo_simulator_def)
  then show ?thesis using run pc tc rv net g' by blast
qed


subsection \<open>Totals and net impact\<close>

lemma total_costs_row_sum:
  assumes "run_simulation L policy_parameters revenue_parameters self g = Inr (r, g')"
  shows "\<forall>i<length (total_costs r).
           total_costs r ! i = sum_list (map (\<lambda>(k, col). col ! i) (policy_costs r))"
proof -
  let ?n = "num_simulations self"
  from run_simulation_Inr [OF assms] have
    tot: "total_costs r = df_sum_axis1 (policy_costs r)" by blast
  from run_simulation_shape [OF assms] have
    pne: "policy_costs r \<noteq> []" and
    cols: "\<forall>(k, col)\<in>set (policy_costs r). column_ok ?n col" and
    nr: "nrows (policy_costs r) = nat ?n" and
    tl: "int (length (total_costs r)) = ?n"
    by auto
  have cl: "\<forall>(k, col)\<in>set (policy_costs r). length col = nrows (policy_costs r)"
    using nrows_columns [OF pne cols] by blast
  have len: "length (total_costs r) = nrows (policy_costs r)" using tl nr by simp
  show ?thesis using df_sum_axis1_nth [OF cl] tot len by simp
qed

text \<open>
  Claim C1. In the results of every run that returns, the total cost of each trial is the
  sum over all policy columns of the cost table at that trial, and the net impact of each
  trial is its total cost minus its revenue; the three vectors have the same length. Both
  are equalities, with no tolerance.
\<close>

theorem total_cost_and_net_impact:
  assumes "run_simulation L policy_parameters revenue_parameters self g = Inr (r, g')"
  shows "(\<forall>i<length (total_costs r).
            total_costs r ! i = sum_list (map (\<lambda>(k, col). col ! i) (policy_costs r))) \<and>
         length (revenues r) = length (total_costs r) \<and>
         length (net_budget_impact r) = length (total_costs r) \<and>
         (\<forall>i<length (total_costs r).
            net_budget_impact r ! i = total_costs r ! i - revenues r ! i)"
proof -
  let ?n = "num_simulations self"
  from run_simulation_shape [OF assms] have
    tl: "int (length (total_costs r)) = ?n" and
    rv: "column_ok ?n (revenues r)" and
    net: "net_budget_impact r = map2 (-) (total_costs r) (revenues r)"
    by auto
  have b: "length (revenues r) = length (total_costs r)"
    using rv tl by (simp add: column_ok_def)
  have c: "length (net_budget_impact r) = length (total_costs r)" using net b by simp
  have d: "\<forall>i<length (total_costs r).
            net_budget_impact r ! i = total_costs r ! i - revenues r ! i"
    using net b by simp
  show ?thesis using total_costs_row_sum [OF assms] b c d by blast
qed

theorem total_cost_and_net_impact_witness:
  "\<exists>r g'. run_simulation counter_numerics POLICY_PARAMETERS REVENUE_PARAMETERS demo_simulator 42
             = Inr (r, g') \<and>
     total_costs r = [283 / 20, 671 / 40, 97 / 5] \<and>
     net_budget_impact r = [113 / 20, 271 / 40, 79 / 10] \<and>
     (\<forall>i<length (total_costs r).
         total_costs r ! i = sum_list (map (\<lambda>(k, col). col ! i) (policy_costs r))) \<and>
     length (revenues r) = length (total_costs r) \<and>
     length (net_budget_impact r) = length (total_costs r) \<and>
     (\<forall>i<length (total_costs r).
         net_budget_impact r ! i = total_costs r ! i - revenues r ! i)"
proof -
  from demo_run obtain r g' where
    run: "run_simulation counter_numerics POLICY_PARAMETERS REVENUE_PARAMETERS demo_simulator 42
            = Inr (r, g')" and
    vals: "total_costs r = [283 / 20, 671 / 40, 97 / 5]"
          "net_budget_impact r = [113 / 20, 271 / 40, 79 / 10]"
    by blast
  show ?thesis using run vals total_cost_and_net_impact [OF run] by blast
qed


subsection \<open>Shape and sign of the results\<close>

text \<open>
  Claim C9. The results of every run that returns have one row per configured trial in the
  cost table (every column) and in the total-cost, revenue and net-impact vectors, and no
  cost (per policy or total) and no revenue is negative.
\<close>

theorem results_shape_and_sign:
  assumes "run_simulation L policy_parameters revenue_parameters self g = Inr (r, g')"
  shows "(\<forall>(k, col)\<in>set (policy_costs r).
            int (length col) = num_simulations self \<and> (\<forall>x\<in>set col. 0 \<le> x)) \<and>
         int (nrows (policy_costs r)) = num_simulations self \<and>
         int (length (total_costs r)) = num_simulations self \<and>
         int (length (revenues r)) = num_simulations self \<and>
         int (length (net_budget_impact r)) = num_simulations self \<and>
         (\<forall>x\<in>set (total_costs r). 0 \<le> x) \<and>
         (\<forall>x\<in>set (revenues r). 0 \<le> x)"
proof -
  let ?n = "num_simulations self"
  from run_simulation_shape [OF assms] have
    n1: "1 \<le> ?n" and
    cols: "\<forall>(k, col)\<in>set (policy_costs r). column_ok ?n col" and
    nr: "nrows (policy_costs r) = nat ?n" and
    tl: "int (length (total_costs r)) = ?n" and
    rv: "column_ok ?n (revenues r)" and
    net: "net_budget_impact r = map2 (-) (total_costs r) (revenues r)"
    by auto
  have a: "\<forall>(k, col)\<in>set (policy_costs r).
            int (length col) = ?n \<and> (\<forall>x\<in>set col. 0 \<le> x)"
    using cols by (auto simp: column_ok_def)
  have b: "int (nrows (policy_costs r)) = ?n" using nr n1 by simp
  have c: "int (length (revenues r)) = ?n" and g: "\<forall>x\<in>set (revenues r). 0 \<le> x"
    using rv by (auto simp: column_ok_def)
  have d: "int (length (net_budget_impact r)) = ?n" using net tl c by simp
  have f: "\<forall>x\<in>set (total_costs r). 0 \<le> x"
  proof
    fix x assume "x \<in> set (total_costs r)"
    then obtain i where i: "i < length (total_costs r)" and x: "x = total_costs r ! i"
      by (auto simp: in_set_conv_nth)
    have "total_costs r ! i = sum_list (map (\<lambda>(k, col). col ! i) (policy_costs r))"
      using total_costs_row_sum [OF assms] i by blast
    moreover have "0 \<le> sum_list (map (\<lambda>(k, col). col ! i) (policy_costs r))"
    proof (rule sum_list_nonneg)
      fix y assume "y \<in> set (map (\<lambda>(k, col). col ! i) (policy_costs r))"
      then obtain k col where kc: "(k, col) \<in> set (policy_costs r)" and y: "y = col ! i"
        by auto
      have "length col = length (total_costs r)" and "\<forall>x\<in>set col. 0 \<le> x"
        using a kc tl by auto
      then show "0 \<le> y" using y i by simp
    qed
    ultimately show "0 \<le> x" using x by simp
  qed
  show ?thesis using a b tl c d f g by blast
qed

theorem results_shape_and_sign_witness:
  "\<exists>r g'. run_simulation counter_numerics POLICY_PARAMETERS REVENUE_PARAMETERS demo_simulator 42
             = Inr (r, g') \<and>
     revenues r = [17 / 2, 10, 23 / 2] \<and>
     (\<forall>(k, col)\<in>set (policy_costs r).
         int (length col) = num_simulations demo_simulator \<and> (\<forall>x\<in>set col. 0 \<le> x)) \<and>
     int (nrows (policy_costs r)) = num_simulations demo_simulator \<and>
     int (length (total_costs r)) = num_simulations demo_simulator \<and>
     int (length (revenues r)) = num_simulations demo_simulator \<and>
     int (length (net_budget_impact r)) = num_simulations demo_simulator \<and>
     (\<forall>x\<in>set (total_costs r). 0 \<le> x) \<and>
     (\<forall>x\<in>set (revenues r). 0 \<le> x)"
proof -
  from demo_run obtain r g' where
    run: "run_simulation counter_numerics POLICY_PARAMETERS REVENUE_PARAMETERS demo_simulator 42
            = Inr (r, g')" and
    vals: "revenues r = [17 / 2, 10, 23 / 2]"
    by blast
  show ?thesis using run vals results_shape_and_sign [OF run] by blast
qed


subsection \<open>Threshold exceedances\<close>

text \<open>
  Claim C5. In the results of every run that returns, the exceedance count is the number
  of trials whose total cost is strictly greater than the threshold (a trial exactly at the
  threshold is not counted), the statistics report that count, and the reported
  probability is the count divided by the trial count, a number between 0 and 1.
\<close>

theorem threshold_exceedance_count:
  assumes "run_simulation L policy_parameters revenue_parameters self g = Inr (r, g')"
  shows "threshold_exceedances r =
           int (length (filter (\<lambda>c. c > budget_threshold self) (total_costs r))) \<and>
         exceedances (stats_threshold_analysis (statistics r)) = threshold_exceedances r \<and>
         probability (stats_threshold_analysis (statistics r)) =
           Finite (real_of_int (threshold_exceedances r) / real_of_int (num_simulations self)) \<and>
         0 \<le> real_of_int (threshold_exceedances r) / real_of_int (num_simulations self) \<and>
         real_of_int (threshold_exceedances r) / real_of_int (num_simulations self) \<le> 1"
proof -
  let ?n = "num_simulations self"
  from run_simulation_Inr [OF assms] have
    ex: "threshold_exceedances r = count_exceedances (total_costs r) (budget_threshold self)" and
    st: "calculate_statistics L self (policy_costs r) (total_costs r) (revenues r)
           (net_budget_impact r) (threshold_exceedances r) = Inr (statistics r)"
    by auto
  from run_simulation_shape [OF assms] have
    n1: "1 \<le> ?n" and tl: "int (length (total_costs r)) = ?n" by auto
  have a: "threshold_exceedances r =
           int (length (filter (\<lambda>c. c > budget_threshold self) (total_costs r)))"
    using ex by (simp add: count_exceedances_def)
  have ta: "stats_threshold_analysis (statistics r) =
           \<lparr>exceedances = threshold_exceedances r,
            probability = np_true_divide (Finite (real_of_int (threshold_exceedances r)))
                            (Finite (real_of_int ?n)),
            percentage = np_true_divide (Finite (100 * real_of_int (threshold_exceedances r)))
                            (Finite (real_of_int ?n))\<rparr>"
    using calculate_statistics_Inr [OF st] by blast
  have b: "exceedances (stats_threshold_analysis (statistics r)) = threshold_exceedances r"
    by (simp add: ta)
  have c: "probability (stats_threshold_analysis (statistics r)) =
           Finite (real_of_int (threshold_exceedances r) / real_of_int ?n)"
    using n1 by (simp add: ta)
  have lo: "0 \<le> threshold_exceedances r" using a by simp
  have "length (filter (\<lambda>c. c > budget_threshold self) (total_costs r)) \<le> length (total_costs r)"
    by (rule length_filter_le)
  then have hi: "threshold_exceedances r \<le> ?n" using a tl by linarith
  have d: "0 \<le> real_of_int (threshold_exceedances r) / real_of_int ?n"
    using lo n1 by simp
  have e: "real_of_int (threshold_exceedances r) / real_of_int ?n \<le> 1"
    using hi n1 by simp
  show ?thesis using a b c d e by blast
qed

theorem threshold_exceedance_count_witness:
  "\<exists>r g'. run_simulation counter_numerics POLICY_PARAMETERS REVENUE_PARAMETERS demo_simulator 42
             = Inr (r, g') \<and>
     total_costs r = [283 / 20, 671 / 40, 97 / 5] \<and>
     budget_threshold demo_simulator = 671 / 40 \<and>
     threshold_exceedances r = 1 \<and>
     threshold_exceedances r =
       int (length (filter (\<lambda>c. c > budget_threshold demo_simulator) (total_costs r))) \<and>
     exceedances (stats_threshold_analysis (statistics r)) = threshold_exceedances r \<and>
     probability (stats_threshold_analysis (statistics r)) = Finite (1 / 3)"
proof -
  from demo_run obtain r g' where
    run: "run_simulation counter_numerics POLICY_PARAMETERS REVENUE_PARAMETERS demo_simulator 42
            = Inr (r, g')" and
    vals: "total_costs r = [283 / 20, 671 / 40, 97 / 5]" "threshold_exceedances r = 1"
    by blast
  have t: "budget_threshold demo_simulator = 671 / 40" and n: "num_simulations demo_simulator = 3"
    by (simp_all add: demo_simulator_def)
  have "probability (stats_threshold_analysis (statistics r)) = Finite (1 / 3)"
    using threshold_exceedance_count [OF run] vals(2) n by simp
  then show ?thesis using run vals t threshold_exceedance_count [OF run] by blast
qed


subsection \<open>Percentiles\<close>

lemma lerp_bounds:
  fixes s :: "real list"
  assumes srt: "sorted s" and u0: "0 \<le> u" and um: "u \<le> real (length s) - 1"
  defines "lo \<equiv> nat \<lfloor>u\<rfloor>"
  defines "hi \<equiv> min (lo + 1) (length s - 1)"
  shows "lo < length s" and "hi < length s" and "lo \<le> hi"
    and "s ! lo \<le> s ! lo + (u - real lo) * (s ! hi - s ! lo)"
    and "s ! lo + (u - real lo) * (s ! hi - s ! lo) \<le> s ! hi"
proof -
  have n: "0 < length s" using u0 um by (cases s) auto
  have rl: "real lo = of_int \<lfloor>u\<rfloor>" using u0 by (simp add: lo_def)
  have lo_le: "real lo \<le> u" using rl by simp
  have u_lt: "u < real lo + 1" using rl by linarith
  have "real lo \<le> real (length s) - 1" using lo_le um by linarith
  then have lo_m: "lo \<le> length s - 1" using n by linarith
  show lo_n: "lo < length s" using lo_m n by linarith
  have "length s - 1 < length s" using n by linarith
  then show hi_n: "hi < length s" unfolding hi_def by (rule min.strict_coboundedI2)
  show lh: "lo \<le> hi" using lo_m by (simp add: hi_def)
  have d: "0 \<le> s ! hi - s ! lo" using sorted_nth_mono [OF srt lh hi_n] by simp
  have f0: "0 \<le> u - real lo" using lo_le by simp
  have f1: "u - real lo \<le> 1" using u_lt by simp
  show "s ! lo \<le> s ! lo + (u - real lo) * (s ! hi - s ! lo)"
    using d f0 by simp
  have "(u - real lo) * (s ! hi - s ! lo) \<le> 1 * (s ! hi - s ! lo)"
    by (rule mult_right_mono [OF f1 d])
  then show "s ! lo + (u - real lo) * (s ! hi - s ! lo) \<le> s ! hi" by simp
qed

lemma lerp_mono:
  fixes s :: "real list"
  assumes srt: "sorted s" and u0: "0 \<le> u" and uv: "u \<le> v" and vm: "v \<le> real (length s) - 1"
  shows "s ! nat \<lfloor>u\<rfloor> + (u - real (nat \<lfloor>u\<rfloor>))
            * (s ! min (nat \<lfloor>u\<rfloor> + 1) (length s - 1) - s ! nat \<lfloor>u\<rfloor>)
       \<le> s ! nat \<lfloor>v\<rfloor> + (v - real (nat \<lfloor>v\<rfloor>))
            * (s ! min (nat \<lfloor>v\<rfloor> + 1) (length s - 1) - s ! nat \<lfloor>v\<rfloor>)"
    (is "?fu \<le> ?fv")
proof -
  let ?lu = "nat \<lfloor>u\<rfloor>" and ?lv = "nat \<lfloor>v\<rfloor>"
  let ?hu = "min (?lu + 1) (length s - 1)" and ?hv = "min (?lv + 1) (length s - 1)"
  have um: "u \<le> real (length s) - 1" using uv vm by linarith
  have v0: "0 \<le> v" using u0 uv by linarith
  note bu = lerp_bounds [OF srt u0 um]
  note bv = lerp_bounds [OF srt v0 vm]
  have le: "?lu \<le> ?lv" using uv by (simp add: floor_mono nat_mono)
  show ?thesis
  proof (cases "?lu = ?lv")
    case True
    have d: "0 \<le> s ! ?hv - s ! ?lv" using sorted_nth_mono [OF srt bv(3) bv(2)] by simp
    have "(u - real ?lv) * (s ! ?hv - s ! ?lv) \<le> (v - real ?lv) * (s ! ?hv - s ! ?lv)"
      by (rule mult_right_mono) (use uv d in simp_all)
    then show ?thesis using True by simp
  next
    case False
    then have "?lu + 1 \<le> ?lv" using le by linarith
    then have "?hu \<le> ?lv" by simp
    then have "s ! ?hu \<le> s ! ?lv" using sorted_nth_mono [OF srt _ bv(1)] by blast
    then show ?thesis using bu(5) bv(4) by linarith
  qed
qed

lemma np_percentile_mono:
  assumes ne: "xs \<noteq> []" and p0: "0 \<le> p" and pq: "p \<le> q" and q100: "q \<le> 100"
  shows "np_percentile xs p \<le> np_percentile xs q"
proof -
  let ?s = "sort xs"
  let ?m = "real (length ?s) - 1"
  have m0: "0 \<le> ?m" using ne by (cases xs) auto
  have u0: "0 \<le> ?m * (p / 100)" using m0 p0 by simp
  have uv: "?m * (p / 100) \<le> ?m * (q / 100)" using m0 pq by (simp add: mult_left_mono)
  have "?m * (q / 100) \<le> ?m * 1" using m0 q100 by (intro mult_left_mono) simp_all
  then have vm: "?m * (q / 100) \<le> ?m" by simp
  show ?thesis
    unfolding np_percentile_def Let_def
    using lerp_mono [OF sorted_sort u0 uv vm] by simp
qed

lemma percentiles_of_sorted:
  assumes "xs \<noteq> []"
  shows "\<exists>v5 v25 v50 v75 v95.
           percentiles_of xs = [(5, v5), (25, v25), (50, v50), (75, v75), (95, v95)] \<and>
           v5 \<le> v25 \<and> v25 \<le> v50 \<and> v50 \<le> v75 \<and> v75 \<le> v95"
proof -
  have a: "np_percentile xs 5 \<le> np_percentile xs 25"
    by (rule np_percentile_mono [OF assms]) simp_all
  have b: "np_percentile xs 25 \<le> np_percentile xs 50"
    by (rule np_percentile_mono [OF assms]) simp_all
  have c: "np_percentile xs 50 \<le> np_percentile xs 75"
    by (rule np_percentile_mono [OF assms]) simp_all
  have d: "np_percentile xs 75 \<le> np_percentile xs 95"
    by (rule np_percentile_mono [OF assms]) simp_all
  show ?thesis using a b c d by (simp add: percentiles_of_def PERCENTILES_def)
qed

text \<open>
  Claim C8. In the statistics of every run that returns, the total-cost percentiles are
  the values \<open>np.percentile\<close> gives at the ranks 5, 25, 50, 75 and 95, and they do not
  decrease with the rank.
\<close>

theorem total_cost_percentiles_monotone:
  assumes "run_simulation L policy_parameters revenue_parameters self g = Inr (r, g')"
  shows "\<exists>v5 v25 v50 v75 v95.
           stats_total_costs_percentiles (statistics r) =
             [(5, v5), (25, v25), (50, v50), (75, v75), (95, v95)] \<and>
           v5 = np_percentile (total_costs r) 5 \<and> v25 = np_percentile (total_costs r) 25 \<and>
           v50 = np_percentile (total_costs r) 50 \<and> v75 = np_percentile (total_costs r) 75 \<and>
           v95 = np_percentile (total_costs r) 95 \<and>
           v5 \<le> v25 \<and> v25 \<le> v50 \<and> v50 \<le> v75 \<and> v75 \<le> v95"
proof -
  from run_simulation_Inr [OF assms] have
    st: "calculate_statistics L self (policy_costs r) (total_costs r) (revenues r)
           (net_budget_impact r) (threshold_exceedances r) = Inr (statistics r)"
    by auto
  have ne: "total_costs r \<noteq> []"
    and p: "stats_total_costs_percentiles (statistics r) = percentiles_of (total_costs r)"
    using calculate_statistics_Inr [OF st] by blast+
  have a: "np_percentile (total_costs r) 5 \<le> np_percentile (total_costs r) 25"
    by (rule np_percentile_mono [OF ne]) simp_all
  have b: "np_percentile (total_costs r) 25 \<le> np_percentile (total_costs r) 50"
    by (rule np_percentile_mono [OF ne]) simp_all
  have c: "np_percentile (total_costs r) 50 \<le> np_percentile (total_costs r) 75"
    by (rule np_percentile_mono [OF ne]) simp_all
  have d: "np_percentile (total_costs r) 75 \<le> np_percentile (total_costs r) 95"
    by (rule np_percentile_mono [OF ne]) simp_all
  show ?thesis using a b c d unfolding p by (simp add: percentiles_of_def PERCENTILES_def)
qed

lemma demo_percentiles:
  "np_percentile [283 / 20, 671 / 40, 97 / 5] 5 = 1153 / 80"
  "np_percentile [283 / 20, 671 / 40, 97 / 5] 25 = 1237 / 80"
  "np_percentile [283 / 20, 671 / 40, 97 / 5] 50 = 671 / 40"
  "np_percentile [283 / 20, 671 / 40, 97 / 5] 75 = 1447 / 80"
  "np_percentile [283 / 20, 671 / 40, 97 / 5] 95 = 1531 / 80"
  by (simp_all add: np_percentile_def Let_def)

theorem total_cost_percentiles_monotone_witness:
  "\<exists>r g'. run_simulation counter_numerics POLICY_PARAMETERS REVENUE_PARAMETERS demo_simulator 42
             = Inr (r, g') \<and>
     total_costs r = [283 / 20, 671 / 40, 97 / 5] \<and>
     stats_total_costs_percentiles (statistics r) =
       [(5, 1153 / 80), (25, 1237 / 80), (50, 671 / 40), (75, 1447 / 80), (95, 1531 / 80)]"
proof -
  from demo_run obtain r g' where
    run: "run_simulation counter_numerics POLICY_PARAMETERS REVENUE_PARAMETERS demo_simulator 42
            = Inr (r, g')" and
    vals: "total_costs r = [283 / 20, 671 / 40, 97 / 5]"
    by blast
  have "stats_total_costs_percentiles (statistics r) =
       [(5, 1153 / 80), (25, 1237 / 80), (50, 671 / 40), (75, 1447 / 80), (95, 1531 / 80)]"
    using total_cost_percentiles_monotone [OF run] unfolding vals demo_percentiles by auto
  then show ?thesis using run vals by blast
qed


section \<open>Seeding and reproducibility\<close>

lemma init_seeded:
  "MonteCarloSimulator_init L n threshold (Some s) g =
     (if 0 \<le> s \<and> s < 2 ^ 32
      then Inr (\<lparr>num_simulations = n, budget_threshold = threshold, random_seed = Some s\<rparr>,
                rng_seed L s)
      else Inl (ValueError FromNumpy))"
  by (simp add: MonteCarloSimulator_init_def np_random_seed_def)

lemma init_unseeded:
  "MonteCarloSimulator_init L n threshold None g =
     Inr (\<lparr>num_simulations = n, budget_threshold = threshold, random_seed = None\<rparr>, g)"
  by (simp add: MonteCarloSimulator_init_def)

lemma calculate_statistics_seed:
  "calculate_statistics L (self\<lparr>random_seed := x\<rparr>) costs totals revs net exceed =
   calculate_statistics L self costs totals revs net exceed"
  by (simp add: calculate_statistics_def split: sum.splits)

lemma run_simulation_ignores_seed:
  "run_simulation L policy_parameters revenue_parameters (self\<lparr>random_seed := x\<rparr>) g =
   run_simulation L policy_parameters revenue_parameters self g"
  by (simp add: run_simulation_def calculate_statistics_seed Let_def
      split: sum.splits option.splits prod.splits)

lemma counter_draws_2:
  "normal_draws counter_numerics loc scale 2 g =
     ([loc + scale * (real (g mod 3) - 1),
       loc + scale * (real ((g + 1) mod 3) - 1)], g + 2)"
proof -
  have "normal_draws counter_numerics loc scale (Suc (Suc 0)) g =
     ([loc + scale * (real (g mod 3) - 1),
       loc + scale * (real ((g + 1) mod 3) - 1)], g + 2)"
    by (simp add: counter_numerics_def)
  then show ?thesis by (simp only: numeral_2_eq_2)
qed

lemma counter_sample_2:
  "sample counter_numerics p 2 None g =
     (if std_dev p < 0 then Inl (ValueError FromNumpy)
      else Inr ([max (mean p + std_dev p * (real (g mod 3) - 1)) 0,
                 max (mean p + std_dev p * (real ((g + 1) mod 3) - 1)) 0], g + 2))"
  by (simp add: sample_def np_random_normal_def np_maximum_def counter_draws_2)

lemma counter_sample_policies_2_first:
  "sample_policies counter_numerics POLICY_PARAMETERS 2 [] 42 =
     Inr ([(''free_buses'', [3 / 5, 7 / 10]),
           (''universal_childcare'', [7, 5]),
           (''affordable_housing'', [10, 23 / 2]),
           (''government_grocery_stores'', [1 / 20, 3 / 40])], 50)"
  by (simp add: POLICY_PARAMETERS_def counter_sample_2)

lemma counter_sample_policies_2_second:
  "sample_policies counter_numerics POLICY_PARAMETERS 2 [] 52 =
     Inr ([(''free_buses'', [7 / 10, 4 / 5]),
           (''universal_childcare'', [5, 6]),
           (''affordable_housing'', [23 / 2, 17 / 2]),
           (''government_grocery_stores'', [3 / 40, 1 / 10])], 60)"
  by (simp add: POLICY_PARAMETERS_def counter_sample_2)

lemma counter_run_2:
  assumes "g = 42 \<or> g = 52"
  shows "\<exists>r g'. run_simulation counter_numerics POLICY_PARAMETERS REVENUE_PARAMETERS
            \<lparr>num_simulations = 2, budget_threshold = 671 / 40, random_seed = Some 42\<rparr> g
              = Inr (r, g') \<and>
           sample_policies counter_numerics POLICY_PARAMETERS 2 [] g = Inr (policy_costs r, g' - 2)
           \<and> g' = g + 10"
proof -
  let ?self = "\<lparr>num_simulations = 2, budget_threshold = 671 / 40, random_seed = Some 42\<rparr>"
  have "\<exists>r g'. run_simulation counter_numerics POLICY_PARAMETERS REVENUE_PARAMETERS ?self g
          = Inr (r, g')"
    by (rule run_simulation_succeeds [where revenue_param = "snd (hd REVENUE_PARAMETERS)"])
       (simp_all add: POLICY_PARAMETERS_def REVENUE_PARAMETERS_def)
  then obtain r g' where run:
    "run_simulation counter_numerics POLICY_PARAMETERS REVENUE_PARAMETERS ?self g = Inr (r, g')"
    by blast
  from run_simulation_Inr [OF run] obtain g1 revenue_param where
    sp: "sample_policies counter_numerics POLICY_PARAMETERS 2 [] g = Inr (policy_costs r, g1)" and
    sr: "sample counter_numerics revenue_param 2 None g1 = Inr (revenues r, g')"
    by auto
  have g1: "g1 = g + 8"
    using sp assms counter_sample_policies_2_first counter_sample_policies_2_second by auto
  have rs: "0 \<le> std_dev revenue_param" using sample_None_Inr [OF sr] by blast
  have "g' = g1 + 2" using sr rs by (simp add: counter_sample_2)
  then show ?thesis using run sp g1 by auto
qed

text \<open>
  Claim C4. Constructing a simulator with a given seed and running it gives the same
  outcome whatever state the global generator was in before: the same results (cost table,
  total-cost, revenue and net-impact vectors, exceedance count and statistics) and the
  same generator state afterwards, or the same exception.
\<close>

theorem seeded_runs_identical:
  "construct_and_run L policy_parameters revenue_parameters n threshold (Some s) g1 =
   construct_and_run L policy_parameters revenue_parameters n threshold (Some s) g2"
  by (simp add: construct_and_run_def init_seeded)

theorem seeded_runs_identical_witness:
  "construct_and_run counter_numerics POLICY_PARAMETERS REVENUE_PARAMETERS 3 (671 / 40) (Some 42) 0 =
   construct_and_run counter_numerics POLICY_PARAMETERS REVENUE_PARAMETERS 3 (671 / 40) (Some 42) 7 \<and>
   (\<exists>r. construct_and_run counter_numerics POLICY_PARAMETERS REVENUE_PARAMETERS 3 (671 / 40)
           (Some 42) 7 = Inr (r, 57) \<and>
        total_costs r = [283 / 20, 671 / 40, 97 / 5] \<and> revenues r = [17 / 2, 10, 23 / 2])"
proof -
  have a: "construct_and_run counter_numerics POLICY_PARAMETERS REVENUE_PARAMETERS 3 (671 / 40)
             (Some 42) 0 =
           construct_and_run counter_numerics POLICY_PARAMETERS REVENUE_PARAMETERS 3 (671 / 40)
             (Some 42) 7"
    by (rule seeded_runs_identical)
  have "construct_and_run counter_numerics POLICY_PARAMETERS REVENUE_PARAMETERS 3 (671 / 40)
          (Some 42) 7 =
        run_simulation counter_numerics POLICY_PARAMETERS REVENUE_PARAMETERS demo_simulator 42"
    by (simp add: construct_and_run_def init_seeded demo_simulator_def counter_numerics_def)
  then show ?thesis using a demo_run by auto
qed

text \<open>
  Claim C10. The constructor sets the generator to the state of the seed, and
  \<open>run_simulation\<close> never reads the stored seed again. So the first run after
  construction is determined by configuration and seed, from any earlier generator state,
  and a second run on the same simulator is the run started in the state \<open>g1\<close> the first
  has left, whatever seed the simulator stores. The witness gives a generator for which
  the second cost table differs from the first.
\<close>

theorem second_run_continues_generator:
  assumes init: "MonteCarloSimulator_init L n threshold (Some s) g = Inr (self, g0)"
    and twice: "run_twice L policy_parameters revenue_parameters self g0 = Inr (r1, r2, g2)"
  shows "g0 = rng_seed L s \<and>
         (\<exists>g1. (\<forall>ga. construct_and_run L policy_parameters revenue_parameters n threshold
                        (Some s) ga = Inr (r1, g1)) \<and>
                (\<forall>x. run_simulation L policy_parameters revenue_parameters
                        (self\<lparr>random_seed := x\<rparr>) g1 = Inr (r2, g2)))"
proof -
  have ok: "0 \<le> s \<and> s < 2 ^ 32"
    using init by (simp add: init_seeded split: if_splits)
  have self: "self = \<lparr>num_simulations = n, budget_threshold = threshold, random_seed = Some s\<rparr>"
    and g0: "g0 = rng_seed L s"
    using init ok by (simp_all add: init_seeded)
  from twice obtain g1 where
    first: "run_simulation L policy_parameters revenue_parameters self g0 = Inr (r1, g1)" and
    second: "run_simulation L policy_parameters revenue_parameters self g1 = Inr (r2, g2)"
    by (auto simp: run_twice_def split: sum.splits)
  have a: "\<forall>ga. construct_and_run L policy_parameters revenue_parameters n threshold
                  (Some s) ga = Inr (r1, g1)"
    using first ok unfolding self g0 by (simp add: construct_and_run_def init_seeded)
  have b: "\<forall>x. run_simulation L policy_parameters revenue_parameters
                  (self\<lparr>random_seed := x\<rparr>) g1 = Inr (r2, g2)"
    using second by (simp add: run_simulation_ignores_seed)
  show ?thesis using g0 a b by blast
qed

theorem second_run_continues_generator_witness:
  "\<exists>self g0 r1 r2 g2.
     MonteCarloSimulator_init counter_numerics 2 (671 / 40) (Some 42) 0 = Inr (self, g0) \<and>
     run_twice counter_numerics POLICY_PARAMETERS REVENUE_PARAMETERS self g0 = Inr (r1, r2, g2) \<and>
     g0 = 42 \<and> g2 = 62 \<and>
     policy_costs r1 =
       [(''free_buses'', [3 / 5, 7 / 10]),
        (''universal_childcare'', [7, 5]),
        (''affordable_housing'', [10, 23 / 2]),
        (''government_grocery_stores'', [1 / 20, 3 / 40])] \<and>
     policy_costs r2 =
       [(''free_buses'', [7 / 10, 4 / 5]),
        (''universal_childcare'', [5, 6]),
        (''affordable_housing'', [23 / 2, 17 / 2]),
        (''government_grocery_stores'', [3 / 40, 1 / 10])] \<and>
     policy_costs r2 \<noteq> policy_costs r1 \<and>
     (\<forall>ga. construct_and_run counter_numerics POLICY_PARAMETERS REVENUE_PARAMETERS 2 (671 / 40)
             (Some 42) ga = Inr (r1, 52))"
proof -
  let ?self = "\<lparr>num_simulations = 2, budget_threshold = 671 / 40, random_seed = Some 42\<rparr>"
  have init: "MonteCarloSimulator_init counter_numerics 2 (671 / 40) (Some 42) 0 = Inr (?self, 42)"
    by (simp add: init_seeded counter_numerics_def)
  from counter_run_2 [of 42] obtain r1 where
    run1: "run_simulation counter_numerics POLICY_PARAMETERS REVENUE_PARAMETERS ?self 42
             = Inr (r1, 52)" and
    sp1: "sample_policies counter_numerics POLICY_PARAMETERS 2 [] 42 = Inr (policy_costs r1, 50)"
    by auto
  from counter_run_2 [of 52] obtain r2 where
    run2: "run_simulation counter_numerics POLICY_PARAMETERS REVENUE_PARAMETERS ?self 52
             = Inr (r2, 62)" and
    sp2: "sample_policies counter_numerics POLICY_PARAMETERS 2 [] 52 = Inr (policy_costs r2, 60)"
    by auto
  have twice: "run_twice counter_numerics POLICY_PARAMETERS REVENUE_PARAMETERS ?self 42
                 = Inr (r1, r2, 62)"
    by (simp add: run_twice_def run1 run2)
  have p1: "policy_costs r1 =
       [(''free_buses'', [3 / 5, 7 / 10]),
        (''universal_childcare'', [7, 5]),
        (''affordable_housing'', [10, 23 / 2]),
        (''government_grocery_stores'', [1 / 20, 3 / 40])]"
    using sp1 unfolding counter_sample_policies_2_first by simp
  have p2: "policy_costs r2 =
       [(''free_buses'', [7 / 10, 4 / 5]),
        (''universal_childcare'', [5, 6]),
        (''affordable_housing'', [23 / 2, 17 / 2]),
        (''government_grocery_stores'', [3 / 40, 1 / 10])]"
    using sp2 unfolding counter_sample_policies_2_second by simp
  have ne: "policy_costs r2 \<noteq> policy_costs r1" unfolding p1 p2 by simp
  from second_run_continues_generator [OF init twice] obtain g1 where
    det: "\<forall>ga. construct_and_run counter_numerics POLICY_PARAMETERS REVENUE_PARAMETERS 2
                  (671 / 40) (Some 42) ga = Inr (r1, g1)"
    by blast
  have "construct_and_run counter_numerics POLICY_PARAMETERS REVENUE_PARAMETERS 2 (671 / 40)
          (Some 42) 0 = Inr (r1, 52)"
    using run1 by (simp add: construct_and_run_def init)
  then have "g1 = 52" using det by simp
  then show ?thesis using init twice p1 p2 ne det by blast
qed


section \<open>Degenerate statistics\<close>

subsection \<open>A run of one trial, evaluated\<close>

lemma counter_draws_1:
  "normal_draws counter_numerics loc scale 1 g = ([loc + scale * (real (g mod 3) - 1)], g + 1)"
  by (simp add: counter_numerics_def)

lemma counter_sample_1:
  "sample counter_numerics p 1 None g =
     (if std_dev p < 0 then Inl (ValueError FromNumpy)
      else Inr ([max (mean p + std_dev p * (real (g mod 3) - 1)) 0], g + 1))"
  by (simp add: sample_def np_random_normal_def np_maximum_def counter_numerics_def)

lemma counter_sample_policies_1:
  "sample_policies counter_numerics POLICY_PARAMETERS 1 [] 42 =
     Inr ([(''free_buses'', [3 / 5]),
           (''universal_childcare'', [6]),
           (''affordable_housing'', [23 / 2]),
           (''government_grocery_stores'', [1 / 20])], 46)"
  by (simp add: POLICY_PARAMETERS_def counter_sample_1)

lemma single_trial_run:
  "\<exists>r g'. run_simulation counter_numerics POLICY_PARAMETERS REVENUE_PARAMETERS
             (demo_simulator\<lparr>num_simulations := 1\<rparr>) 42 = Inr (r, g') \<and>
     policy_costs r =
       [(''free_buses'', [3 / 5]),
        (''universal_childcare'', [6]),
        (''affordable_housing'', [23 / 2]),
        (''government_grocery_stores'', [1 / 20])] \<and>
     total_costs r = [363 / 20] \<and> revenues r = [10] \<and> net_budget_impact r = [163 / 20]"
proof -
  let ?self = "demo_simulator\<lparr>num_simulations := 1\<rparr>"
  have n: "num_simulations ?self = 1" by simp
  have "\<exists>r g'. run_simulation counter_numerics POLICY_PARAMETERS REVENUE_PARAMETERS ?self 42
          = Inr (r, g')"
    by (rule run_simulation_succeeds [where revenue_param = "snd (hd REVENUE_PARAMETERS)"])
       (simp_all add: POLICY_PARAMETERS_def REVENUE_PARAMETERS_def)
  then obtain r g' where run:
    "run_simulation counter_numerics POLICY_PARAMETERS REVENUE_PARAMETERS ?self 42 = Inr (r, g')"
    by blast
  from run_simulation_Inr [OF run] obtain g1 revenue_param where
    sp: "sample_policies counter_numerics POLICY_PARAMETERS (num_simulations ?self) [] 42
           = Inr (policy_costs r, g1)" and
    rk: "map_of REVENUE_PARAMETERS ''tax_increases'' = Some revenue_param" and
    sr: "sample counter_numerics revenue_param (num_simulations ?self) None g1
           = Inr (revenues r, g')" and
    tot: "total_costs r = df_sum_axis1 (policy_costs r)"
    by blast
  have pc: "policy_costs r =
       [(''free_buses'', [3 / 5]),
        (''universal_childcare'', [6]),
        (''affordable_housing'', [23 / 2]),
        (''government_grocery_stores'', [1 / 20])]" and g1: "g1 = 46"
    using sp unfolding n counter_sample_policies_1 by simp_all
  have rp: "revenue_param = snd (hd REVENUE_PARAMETERS)"
    using rk by (simp add: REVENUE_PARAMETERS_def)
  have rv: "revenues r = [10]"
    using sr unfolding n g1 rp by (simp add: REVENUE_PARAMETERS_def counter_sample_1)
  have tc: "total_costs r = [363 / 20]"
    unfolding tot pc by (simp add: df_sum_axis1_def nrows_def)
  have net: "net_budget_impact r = [163 / 20]"
    using run_simulation_shape [OF run] unfolding tc rv by simp
  show ?thesis using run pc tc rv net by blast
qed

lemma ci_fewer_than_two:
  "length data \<le> 1 \<Longrightarrow> ci L data = \<lparr>lower = NaN, upper = NaN\<rparr>"
  by (simp add: ci_def scipy_sem_def sample_std_def t_interval_def Let_def
      split: np_float.splits)


subsection \<open>Confidence intervals of a single trial\<close>

text \<open>
  Claim C7, as the code has it. With a trial count of 1 a run over a valid configuration
  (at least one policy, no negative standard deviation, the revenue entry present) returns:
  nothing raises. The three confidence intervals it reports have nan as lower and as upper
  bound, the nan that the standard error of a single value is (0/0) and that the interval
  of a t distribution with 0 degrees of freedom is; neither the point value nor a
  documented flag.
\<close>

theorem confidence_intervals_single_trial:
  assumes pne: "policy_parameters \<noteq> []"
    and pstd: "\<forall>(k, p)\<in>set policy_parameters. 0 \<le> std_dev p"
    and rkey: "map_of revenue_parameters ''tax_increases'' = Some revenue_param"
    and rstd: "0 \<le> std_dev revenue_param"
    and one: "num_simulations self = 1"
  shows "\<exists>r g'. run_simulation L policy_parameters revenue_parameters self g = Inr (r, g') \<and>
           stats_confidence_intervals (statistics r) =
             \<lparr>ci_total_costs = \<lparr>lower = NaN, upper = NaN\<rparr>,
              ci_revenues = \<lparr>lower = NaN, upper = NaN\<rparr>,
              ci_net_budget_impact = \<lparr>lower = NaN, upper = NaN\<rparr>\<rparr>"
proof -
  have n1: "1 \<le> num_simulations self" using one by simp
  from run_simulation_succeeds [OF pne pstd rkey rstd n1, where L = L and g = g] obtain r g' where
    run: "run_simulation L policy_parameters revenue_parameters self g = Inr (r, g')"
    by blast
  from run_simulation_Inr [OF run] have
    st: "calculate_statistics L self (policy_costs r) (total_costs r) (revenues r)
           (net_budget_impact r) (threshold_exceedances r) = Inr (statistics r)"
    by auto
  have cis: "stats_confidence_intervals (statistics r) =
             calculate_confidence_intervals L (total_costs r) (revenues r) (net_budget_impact r)"
    using calculate_statistics_Inr [OF st] by blast
  from run_simulation_shape [OF run] have
    tl: "int (length (total_costs r)) = 1" and
    rv: "column_ok 1 (revenues r)" and
    net: "net_budget_impact r = map2 (-) (total_costs r) (revenues r)"
    unfolding one by auto
  have a: "length (total_costs r) \<le> 1" using tl by simp
  have b: "length (revenues r) \<le> 1" using rv by (simp add: column_ok_def)
  have c: "length (net_budget_impact r) \<le> 1" using net a by simp
  have "stats_confidence_intervals (statistics r) =
             \<lparr>ci_total_costs = \<lparr>lower = NaN, upper = NaN\<rparr>,
              ci_revenues = \<lparr>lower = NaN, upper = NaN\<rparr>,
              ci_net_budget_impact = \<lparr>lower = NaN, upper = NaN\<rparr>\<rparr>"
    unfolding cis calculate_confidence_intervals_def
    by (simp add: ci_fewer_than_two [OF a] ci_fewer_than_two [OF b] ci_fewer_than_two [OF c])
  then show ?thesis using run by blast
qed

theorem confidence_intervals_single_trial_witness:
  "\<exists>r g'. run_simulation counter_numerics POLICY_PARAMETERS REVENUE_PARAMETERS
             (demo_simulator\<lparr>num_simulations := 1\<rparr>) 42 = Inr (r, g') \<and>
     stats_confidence_intervals (statistics r) =
       \<lparr>ci_total_costs = \<lparr>lower = NaN, upper = NaN\<rparr>,
        ci_revenues = \<lparr>lower = NaN, upper = NaN\<rparr>,
        ci_net_budget_impact = \<lparr>lower = NaN, upper = NaN\<rparr>\<rparr>"
  by (rule confidence_intervals_single_trial
        [where revenue_param = "snd (hd REVENUE_PARAMETERS)"])
     (simp_all add: POLICY_PARAMETERS_def REVENUE_PARAMETERS_def)

text \<open>
  Claim C7 as stated asks for a defined value, such as the interval equal to the point
  value. The run of one trial above has the total cost 363/20 and reports the interval
  (nan, nan).
\<close>

theorem confidence_interval_single_trial_counterexample:
  "\<exists>r g'. run_simulation counter_numerics POLICY_PARAMETERS REVENUE_PARAMETERS
             (demo_simulator\<lparr>num_simulations := 1\<rparr>) 42 = Inr (r, g') \<and>
     total_costs r = [363 / 20] \<and>
     ci_total_costs (stats_confidence_intervals (statistics r)) = \<lparr>lower = NaN, upper = NaN\<rparr> \<and>
     ci_total_costs (stats_confidence_intervals (statistics r))
       \<noteq> \<lparr>lower = Finite (363 / 20), upper = Finite (363 / 20)\<rparr> \<and>
     \<not> (\<exists>l u. ci_total_costs (stats_confidence_intervals (statistics r))
                 = \<lparr>lower = Finite l, upper = Finite u\<rparr>)"
proof -
  from single_trial_run obtain r g' where
    run: "run_simulation counter_numerics POLICY_PARAMETERS REVENUE_PARAMETERS
            (demo_simulator\<lparr>num_simulations := 1\<rparr>) 42 = Inr (r, g')" and
    tc: "total_costs r = [363 / 20]"
    by blast
  from run_simulation_Inr [OF run] have
    st: "calculate_statistics counter_numerics (demo_simulator\<lparr>num_simulations := 1\<rparr>)
           (policy_costs r) (total_costs r) (revenues r)
           (net_budget_impact r) (threshold_exceedances r) = Inr (statistics r)"
    by auto
  have "ci_total_costs (stats_confidence_intervals (statistics r)) = ci counter_numerics [363 / 20]"
    using calculate_statistics_Inr [OF st] tc by (simp add: calculate_confidence_intervals_def)
  then have nan: "ci_total_costs (stats_confidence_intervals (statistics r))
                    = \<lparr>lower = NaN, upper = NaN\<rparr>"
    by (simp add: ci_fewer_than_two)
  show ?thesis using run tc nan by auto
qed


subsection \<open>Sensitivity analysis with zero total variance\<close>

lemma set_insert_desc: "set (insert_desc x ys) = insert x (set ys)"
  by (induction ys) auto

lemma length_insert_desc: "length (insert_desc x ys) = Suc (length ys)"
  by (induction ys) auto

lemma set_sorted_by_contribution: "set (sorted_by_contribution items) = set items"
  unfolding sorted_by_contribution_def by (induction items) (simp_all add: set_insert_desc)

lemma length_sorted_by_contribution: "length (sorted_by_contribution items) = length items"
  unfolding sorted_by_contribution_def by (induction items) (simp_all add: length_insert_desc)

lemma sample_policies_keys:
  "sample_policies L items n d g = Inr (d', g') \<Longrightarrow>
   fst ` set d' \<subseteq> fst ` set d \<union> fst ` set items"
proof (induction items arbitrary: d g)
  case Nil
  then show ?case by simp
next
  case (Cons item items)
  obtain key param where item: "item = (key, param)" by (cases item)
  from Cons.prems item obtain costs g1 where
    r: "sample_policies L items n (AList.update key costs d) g1 = Inr (d', g')"
    by (auto split: sum.splits)
  have "fst ` set (AList.update key costs d) \<subseteq> insert key (fst ` set d)"
    using set_update_subset [of key costs d] by auto
  moreover have "fst ` set d' \<subseteq> fst ` set (AList.update key costs d) \<union> fst ` set items"
    using Cons.IH [OF r] .
  ultimately have "fst ` set d' \<subseteq> insert key (fst ` set d) \<union> fst ` set items" by blast
  then show ?case using item by auto
qed

lemma print_contributions_Inr:
  "fst ` set items \<subseteq> fst ` set policy_parameters \<Longrightarrow>
   \<exists>names. print_contributions policy_parameters items = Inr names"
proof (induction items)
  case Nil
  then show ?case by simp
next
  case (Cons item items)
  obtain k e where item: "item = (k, e)" by (cases item)
  have "k \<in> fst ` set policy_parameters" using Cons.prems item by auto
  then obtain param where p: "map_of policy_parameters k = Some param"
    by (cases "map_of policy_parameters k") (auto simp: map_of_eq_None_iff)
  have "fst ` set items \<subseteq> fst ` set policy_parameters" using Cons.prems by auto
  from Cons.IH [OF this] obtain names where
    "print_contributions policy_parameters items = Inr names" by blast
  then show ?case using item p by simp
qed

lemma print_contributions_Inl:
  "print_contributions policy_parameters items = Inl e \<Longrightarrow>
   \<exists>k\<in>fst ` set items. k \<notin> fst ` set policy_parameters \<and> e = KeyError k"
proof (induction items)
  case Nil
  then show ?case by simp
next
  case (Cons item items)
  obtain k s where item: "item = (k, s)" by (cases item)
  show ?case
  proof (cases "map_of policy_parameters k")
    case None
    then have "k \<notin> fst ` set policy_parameters" by (simp add: map_of_eq_None_iff)
    moreover have "e = KeyError k" using Cons.prems item None by simp
    ultimately show ?thesis using item by auto
  next
    case (Some param)
    then have "print_contributions policy_parameters items = Inl e"
      using Cons.prems item by (auto split: sum.splits)
    from Cons.IH [OF this] show ?thesis by auto
  qed
qed

lemma sensitivity_entries:
  assumes "run_sensitivity_analysis L policy_parameters sim results = Inr entries"
  shows "length entries = length (policy_costs results)"
    and "fst ` set entries = fst ` set (policy_costs results)"
    and "(k, e) \<in> set entries \<Longrightarrow>
         \<exists>col. (k, col) \<in> set (policy_costs results) \<and>
           variance e = var_or_nan (series_var L) col \<and>
           contribution_to_total e =
             np_true_divide (variance e) (var_or_nan (ndarray_var L) (total_costs results)) \<and>
           contribution_percentage e = np_multiply (Finite 100) (contribution_to_total e)"
proof -
  let ?items = "map (\<lambda>(policy_key, col).
                   (policy_key,
                    \<lparr>variance = var_or_nan (series_var L) col,
                     contribution_to_total =
                       np_true_divide (var_or_nan (series_var L) col)
                         (var_or_nan (ndarray_var L) (total_costs results)),
                     contribution_percentage =
                       np_multiply (Finite 100)
                         (np_true_divide (var_or_nan (series_var L) col)
                            (var_or_nan (ndarray_var L) (total_costs results)))\<rparr>))
              (policy_costs results)"
  have e: "entries = sorted_by_contribution ?items"
    using assms unfolding run_sensitivity_analysis_def Let_def
    by (simp split: sum.splits)
  show "length entries = length (policy_costs results)"
    unfolding e by (simp add: length_sorted_by_contribution)
  show "fst ` set entries = fst ` set (policy_costs results)"
    unfolding e set_sorted_by_contribution by force
  show "(k, e) \<in> set entries \<Longrightarrow>
         \<exists>col. (k, col) \<in> set (policy_costs results) \<and>
           variance e = var_or_nan (series_var L) col \<and>
           contribution_to_total e =
             np_true_divide (variance e) (var_or_nan (ndarray_var L) (total_costs results)) \<and>
           contribution_percentage e = np_multiply (Finite 100) (contribution_to_total e)"
    unfolding e set_sorted_by_contribution by auto
qed

lemma run_sensitivity_analysis_returns:
  assumes "fst ` set (policy_costs results) \<subseteq> fst ` set policy_parameters"
  shows "\<exists>entries. run_sensitivity_analysis L policy_parameters sim results = Inr entries"
proof -
  let ?items = "map (\<lambda>(policy_key, col).
                   (let policy_variance = var_or_nan (series_var L) col;
                        contribution = np_true_divide policy_variance
                          (var_or_nan (ndarray_var L) (total_costs results))
                    in (policy_key,
                        \<lparr>variance = policy_variance,
                         contribution_to_total = contribution,
                         contribution_percentage = np_multiply (Finite 100) contribution\<rparr>)))
              (policy_costs results)"
  have "fst ` set (sorted_by_contribution ?items) = fst ` set (policy_costs results)"
    unfolding set_sorted_by_contribution by (force simp: Let_def)
  then have "fst ` set (sorted_by_contribution ?items) \<subseteq> fst ` set policy_parameters"
    using assms by simp
  from print_contributions_Inr [OF this] obtain names where
    "print_contributions policy_parameters (sorted_by_contribution ?items) = Inr names" by blast
  then show ?thesis unfolding run_sensitivity_analysis_def Let_def by simp
qed

text \<open>The call raises only for a column whose key the policy table does not have, and
  then it is the KeyError of that key.\<close>

lemma run_sensitivity_analysis_KeyError:
  assumes "run_sensitivity_analysis L policy_parameters sim results = Inl err"
  shows "\<exists>k\<in>fst ` set (policy_costs results). k \<notin> fst ` set policy_parameters \<and> err = KeyError k"
proof -
  let ?items = "map (\<lambda>(policy_key, col).
                   (let policy_variance = var_or_nan (series_var L) col;
                        contribution = np_true_divide policy_variance
                          (var_or_nan (ndarray_var L) (total_costs results))
                    in (policy_key,
                        \<lparr>variance = policy_variance,
                         contribution_to_total = contribution,
                         contribution_percentage = np_multiply (Finite 100) contribution\<rparr>)))
              (policy_costs results)"
  have k: "fst ` set (sorted_by_contribution ?items) = fst ` set (policy_costs results)"
    unfolding set_sorted_by_contribution by (force simp: Let_def)
  have "print_contributions policy_parameters (sorted_by_contribution ?items) = Inl err"
    using assms unfolding run_sensitivity_analysis_def Let_def by (simp split: sum.splits)
  from print_contributions_Inl [OF this] show ?thesis unfolding k .
qed

lemma divide_by_zero_not_finite: "np_true_divide v (Finite 0) \<noteq> Finite c"
  by (cases v) auto

lemma single_trial_variance:
  assumes "run_simulation L policy_parameters revenue_parameters self g = Inr (r, g')"
    and "num_simulations self = 1"
  shows "var_or_nan F (total_costs r) = Finite 0"
    and "(k, col) \<in> set (policy_costs r) \<Longrightarrow> var_or_nan F col = Finite 0"
proof -
  from run_simulation_shape [OF assms(1)] have
    tl: "int (length (total_costs r)) = 1" and
    cols: "\<forall>(k, col)\<in>set (policy_costs r). column_ok 1 col"
    unfolding assms(2) by auto
  show "var_or_nan F (total_costs r) = Finite 0"
    using tl by (auto simp: var_or_nan_def)
  show "(k, col) \<in> set (policy_costs r) \<Longrightarrow> var_or_nan F col = Finite 0"
    using cols by (auto simp: var_or_nan_def column_ok_def)
qed

text \<open>
  Claim C3, as the code has it. For the results of a run whose computed total-cost
  variance is exactly zero, \<open>run_sensitivity_analysis\<close> returns: it raises nothing and
  flags nothing (every column key is a key of the policy table, so the lookup of the names
  finds them all). The dict it returns has one entry per policy column, and the
  contribution in each entry is the policy's variance divided by that zero: nan where the
  policy's own variance is zero, and in no case a finite number, so in no case zero. With
  a trial count of 1 (where, by \<open>single_trial_variance\<close>, the total-cost variance is always
  exactly zero) every variance reported is zero and every contribution and every
  percentage is nan.
\<close>

theorem sensitivity_zero_variance:
  assumes run: "run_simulation L policy_parameters revenue_parameters self g = Inr (results, g')"
    and zero: "var_or_nan (ndarray_var L) (total_costs results) = Finite 0"
  shows "\<exists>entries.
           run_sensitivity_analysis L policy_parameters self results = Inr entries \<and>
           length entries = length (policy_costs results) \<and>
           fst ` set entries = fst ` set (policy_costs results) \<and>
           (\<forall>(k, e)\<in>set entries.
              (\<exists>col. (k, col) \<in> set (policy_costs results) \<and>
                 variance e = var_or_nan (series_var L) col) \<and>
              contribution_to_total e = np_true_divide (variance e) (Finite 0) \<and>
              (variance e = Finite 0 \<longrightarrow> contribution_to_total e = NaN) \<and>
              (\<forall>c. contribution_to_total e \<noteq> Finite c) \<and>
              contribution_percentage e = np_multiply (Finite 100) (contribution_to_total e)) \<and>
           (num_simulations self = 1 \<longrightarrow>
              (\<forall>(k, e)\<in>set entries. variance e = Finite 0 \<and> contribution_to_total e = NaN \<and>
                 contribution_percentage e = NaN))"
proof -
  from run_simulation_Inr [OF run] obtain g1 where
    sp: "sample_policies L policy_parameters (num_simulations self) [] g
           = Inr (policy_costs results, g1)"
    by blast
  have keys: "fst ` set (policy_costs results) \<subseteq> fst ` set policy_parameters"
    using sample_policies_keys [OF sp] by simp
  from run_sensitivity_analysis_returns [OF keys] obtain entries where
    en: "run_sensitivity_analysis L policy_parameters self results = Inr entries"
    by blast
  note facts = sensitivity_entries [OF en]
  have each: "\<forall>(k, e)\<in>set entries.
              (\<exists>col. (k, col) \<in> set (policy_costs results) \<and>
                 variance e = var_or_nan (series_var L) col) \<and>
              contribution_to_total e = np_true_divide (variance e) (Finite 0) \<and>
              (variance e = Finite 0 \<longrightarrow> contribution_to_total e = NaN) \<and>
              (\<forall>c. contribution_to_total e \<noteq> Finite c) \<and>
              contribution_percentage e = np_multiply (Finite 100) (contribution_to_total e)"
  proof (clarify, intro conjI)
    fix k e
    assume m: "(k, e) \<in> set entries"
    from facts(3) [OF m] obtain col where
      col: "(k, col) \<in> set (policy_costs results)" and
      v: "variance e = var_or_nan (series_var L) col" and
      c: "contribution_to_total e = np_true_divide (variance e) (Finite 0)" and
      p: "contribution_percentage e = np_multiply (Finite 100) (contribution_to_total e)"
      unfolding zero by blast
    show "\<exists>col. (k, col) \<in> set (policy_costs results) \<and>
            variance e = var_or_nan (series_var L) col"
      using col v by blast
    show "contribution_to_total e = np_true_divide (variance e) (Finite 0)" by (rule c)
    show "variance e = Finite 0 \<longrightarrow> contribution_to_total e = NaN" using c by simp
    show "\<forall>c. contribution_to_total e \<noteq> Finite c"
      unfolding c by (simp add: divide_by_zero_not_finite)
    show "contribution_percentage e = np_multiply (Finite 100) (contribution_to_total e)"
      by (rule p)
  qed
  have one: "num_simulations self = 1 \<longrightarrow>
              (\<forall>(k, e)\<in>set entries. variance e = Finite 0 \<and> contribution_to_total e = NaN \<and>
                 contribution_percentage e = NaN)"
  proof (intro impI, clarify)
    fix k e
    assume n: "num_simulations self = 1" and m: "(k, e) \<in> set entries"
    from each m obtain col where
      col: "(k, col) \<in> set (policy_costs results)" and
      v: "variance e = var_or_nan (series_var L) col" and
      c: "contribution_to_total e = np_true_divide (variance e) (Finite 0)" and
      p: "contribution_percentage e = np_multiply (Finite 100) (contribution_to_total e)"
      by blast
    have v0: "variance e = Finite 0"
      unfolding v using single_trial_variance(2) [OF run n col] .
    have c0: "contribution_to_total e = NaN" unfolding c v0 by simp
    have p0: "contribution_percentage e = NaN" unfolding p c0 by simp
    show "variance e = Finite 0 \<and> contribution_to_total e = NaN \<and> contribution_percentage e = NaN"
      using v0 c0 p0 by simp
  qed
  show ?thesis using en facts(1,2) each one by blast
qed

text \<open>The analysis of the run of one trial evaluated above.\<close>

lemma single_trial_sensitivity:
  assumes "policy_costs r =
       [(''free_buses'', [3 / 5]),
        (''universal_childcare'', [6]),
        (''affordable_housing'', [23 / 2]),
        (''government_grocery_stores'', [1 / 20])]" and "total_costs r = [363 / 20]"
  shows "run_sensitivity_analysis counter_numerics POLICY_PARAMETERS sim r =
       Inr [(''free_buses'',
         \<lparr>variance = Finite 0, contribution_to_total = NaN, contribution_percentage = NaN\<rparr>),
        (''universal_childcare'',
         \<lparr>variance = Finite 0, contribution_to_total = NaN, contribution_percentage = NaN\<rparr>),
        (''affordable_housing'',
         \<lparr>variance = Finite 0, contribution_to_total = NaN, contribution_percentage = NaN\<rparr>),
        (''government_grocery_stores'',
         \<lparr>variance = Finite 0, contribution_to_total = NaN, contribution_percentage = NaN\<rparr>)]"
  unfolding run_sensitivity_analysis_def Let_def assms
  by (simp add: var_or_nan_def sorted_by_contribution_def POLICY_PARAMETERS_def)

theorem sensitivity_zero_variance_witness:
  "\<exists>r g' entries.
     run_simulation counter_numerics POLICY_PARAMETERS REVENUE_PARAMETERS
       (demo_simulator\<lparr>num_simulations := 1\<rparr>) 42 = Inr (r, g') \<and>
     var_or_nan (ndarray_var counter_numerics) (total_costs r) = Finite 0 \<and>
     run_sensitivity_analysis counter_numerics POLICY_PARAMETERS
       (demo_simulator\<lparr>num_simulations := 1\<rparr>) r = Inr entries \<and>
     length entries = 4 \<and>
     map fst entries = [''free_buses'', ''universal_childcare'', ''affordable_housing'',
       ''government_grocery_stores''] \<and>
     list_all (\<lambda>(k, e). variance e = Finite 0 \<and> contribution_to_total e = NaN) entries"
proof -
  let ?sim = "demo_simulator\<lparr>num_simulations := 1\<rparr>"
  from single_trial_run obtain r g' where
    run: "run_simulation counter_numerics POLICY_PARAMETERS REVENUE_PARAMETERS ?sim 42
            = Inr (r, g')" and
    pc: "policy_costs r =
       [(''free_buses'', [3 / 5]),
        (''universal_childcare'', [6]),
        (''affordable_housing'', [23 / 2]),
        (''government_grocery_stores'', [1 / 20])]" and
    tc: "total_costs r = [363 / 20]"
    by blast
  have z: "var_or_nan (ndarray_var counter_numerics) (total_costs r) = Finite 0"
    unfolding tc by (simp add: var_or_nan_def)
  from sensitivity_zero_variance [OF run z] obtain entries where
    en: "run_sensitivity_analysis counter_numerics POLICY_PARAMETERS ?sim r = Inr entries" and
    len: "length entries = length (policy_costs r)" and
    one: "num_simulations ?sim = 1 \<longrightarrow>
            (\<forall>(k, e)\<in>set entries. variance e = Finite 0 \<and> contribution_to_total e = NaN \<and>
               contribution_percentage e = NaN)"
    by blast
  have l4: "length entries = 4" using len unfolding pc by simp
  have "\<forall>(k, e)\<in>set entries. variance e = Finite 0 \<and> contribution_to_total e = NaN"
    using one by auto
  then have all: "list_all (\<lambda>(k, e). variance e = Finite 0 \<and> contribution_to_total e = NaN) entries"
    by (auto simp: list_all_iff)
  have keys: "map fst entries = [''free_buses'', ''universal_childcare'', ''affordable_housing'',
       ''government_grocery_stores'']"
    using en unfolding single_trial_sensitivity [OF pc tc] by auto
  show ?thesis
    by (rule exI [of _ r], rule exI [of _ g'], rule exI [of _ entries])
       (intro conjI run z en l4 keys all)
qed

text \<open>
  Claim C3 as stated asks for contributions of zero or for an explicit signal. For the
  run of one trial above the total-cost variance is zero, the analysis returns its dict,
  and all four contributions in it are nan.
\<close>

theorem sensitivity_zero_variance_counterexample:
  "\<exists>r g' entries.
     run_simulation counter_numerics POLICY_PARAMETERS REVENUE_PARAMETERS
       (demo_simulator\<lparr>num_simulations := 1\<rparr>) 42 = Inr (r, g') \<and>
     total_costs r = [363 / 20] \<and>
     var_or_nan (ndarray_var counter_numerics) (total_costs r) = Finite 0 \<and>
     run_sensitivity_analysis counter_numerics POLICY_PARAMETERS
       (demo_simulator\<lparr>num_simulations := 1\<rparr>) r = Inr entries \<and>
     map (\<lambda>(k, e). (k, contribution_to_total e)) entries =
       [(''free_buses'', NaN), (''universal_childcare'', NaN),
        (''affordable_housing'', NaN), (''government_grocery_stores'', NaN)] \<and>
     \<not> list_all (\<lambda>(k, e). contribution_to_total e = Finite 0) entries"
proof -
  from single_trial_run obtain r g' where
    run: "run_simulation counter_numerics POLICY_PARAMETERS REVENUE_PARAMETERS
            (demo_simulator\<lparr>num_simulations := 1\<rparr>) 42 = Inr (r, g')" and
    pc: "policy_costs r =
       [(''free_buses'', [3 / 5]),
        (''universal_childcare'', [6]),
        (''affordable_housing'', [23 / 2]),
        (''government_grocery_stores'', [1 / 20])]" and
    tc: "total_costs r = [363 / 20]"
    by blast
  have z: "var_or_nan (ndarray_var counter_numerics) (total_costs r) = Finite 0"
    unfolding tc by (simp add: var_or_nan_def)
  show ?thesis using run tc z by (auto simp: single_trial_sensitivity [OF pc tc])
qed

end
